theory Spec2Isabelle
  imports Complex_Main
begin

section \<open>Python values, exceptions and the library boundary\<close>

text \<open>
  The programs are Python. Their values are modelled as follows.
  \<^item> A \<open>str\<close> is a \<open>string\<close> (a list of 8-bit characters); the slices
    \<open>s[:n]\<close> of the source are \<open>take n s\<close>. One literal of the source lies outside
    that range (the bullet U+2022 in \<open>generate_executive_summary\<close>); it is the constant
    \<open>bullet\<close>, written as its UTF-8 bytes.
  \<^item> A value that came out of \<open>json.load\<close> / \<open>json.loads\<close>, or the value of a
    \<open>meeting_info\<close> entry, is a \<open>json\<close>. A \<open>dict\<close> is an association list in
    insertion order, looked up with \<open>map_of\<close>.
  \<^item> A raised exception is a value \<open>Exn class message\<close>; a computation that may raise
    returns \<open>exn + 'a\<close> with \<open>Inl\<close> the exception. Every class used here is caught by
    \<open>except Exception\<close>.
  \<^item> Console output (\<open>print\<close>) is not modelled.
\<close>

datatype json =
    JNull
  | JBool bool
  | JInt int
  | JFloat real
  | JStr string
  | JArr "json list"
  | JObj "(string \<times> json) list"

text \<open>Truth value testing of \<open>if x:\<close> and \<open>x and y\<close>.\<close>

fun truthy :: "json \<Rightarrow> bool" where
  "truthy JNull = False"
| "truthy (JBool b) = b"
| "truthy (JInt i) = (i \<noteq> 0)"
| "truthy (JFloat x) = (x \<noteq> 0)"
| "truthy (JStr s) = (s \<noteq> [])"
| "truthy (JArr xs) = (xs \<noteq> [])"
| "truthy (JObj kvs) = (kvs \<noteq> [])"

fun py_type_name :: "json \<Rightarrow> string" where
  "py_type_name JNull = ''NoneType''"
| "py_type_name (JBool b) = ''bool''"
| "py_type_name (JInt i) = ''int''"
| "py_type_name (JFloat x) = ''float''"
| "py_type_name (JStr s) = ''str''"
| "py_type_name (JArr xs) = ''list''"
| "py_type_name (JObj kvs) = ''dict''"

datatype exn_class =
    FileNotFoundError
  | JSONDecodeError
  | ValueError
  | RecursionError
  | AttributeError
  | TypeError
  | IndexError
  | OtherException

datatype exn = Exn exn_class string

text \<open>\<open>str(e)\<close>.\<close>

fun str_exn :: "exn \<Rightarrow> string" where
  "str_exn (Exn c m) = m"

fun exn_class_of :: "exn \<Rightarrow> exn_class" where
  "exn_class_of (Exn c m) = c"

definition no_attribute :: "json \<Rightarrow> string \<Rightarrow> exn" where
  \<open>no_attribute v a =
     Exn AttributeError
       ([CHR 0x27] @ py_type_name v @ [CHR 0x27] @ '' object has no attribute '' @ [CHR 0x27] @ a @ [CHR 0x27])\<close>

text \<open>
  Functions of the Python standard library whose results the programs only pass on are
  parameters of the model, collected in one record:
  \<open>py_repr\<close> is \<open>repr\<close> on floats, lists and dicts; \<open>json_loads\<close> is
  \<open>json.loads\<close>, which returns a value or raises: \<open>JSONDecodeError\<close> on a text that is
  not JSON, but also a plain \<open>ValueError\<close> on an integer literal longer than the
  interpreter's digit limit and \<open>RecursionError\<close> on a text nested too deeply;
  \<open>json_dumps\<close> is \<open>json.dumps(\<sqdot>, indent=2)\<close>; \<open>str_lower\<close> is \<open>str.lower\<close>;
  \<open>float_format_mb\<close> is \<open>f"{size / 1024 / 1024:.1f}"\<close> on the sizes where the float
  division rounds (see \<open>format_mb\<close>).
\<close>

record pylib =
  py_repr :: "json \<Rightarrow> string"
  json_loads :: "string \<Rightarrow> exn + json"
  json_dumps :: "json \<Rightarrow> string"
  str_lower :: "string \<Rightarrow> string"
  float_format_mb :: "nat \<Rightarrow> string"

definition digit_char :: "nat \<Rightarrow> char" where
  "digit_char d = ''0123456789'' ! d"

function show_nat :: "nat \<Rightarrow> string" where
  "show_nat n = (if n < 10 then [digit_char n] else show_nat (n div 10) @ [digit_char (n mod 10)])"
  by pat_completeness auto
termination
  by (relation "measure id") auto

declare show_nat.simps [simp del]

definition show_int :: "int \<Rightarrow> string" where
  "show_int i = (if i < 0 then ''-'' @ show_nat (nat (- i)) else show_nat (nat i))"

text \<open>What an f-string field \<open>{v}\<close> puts into the string: \<open>format(v, '')\<close>, which is \<open>str(v)\<close>.\<close>

fun py_str :: "pylib \<Rightarrow> json \<Rightarrow> string" where
  "py_str lib JNull = ''None''"
| "py_str lib (JBool b) = (if b then ''True'' else ''False'')"
| "py_str lib (JInt i) = show_int i"
| "py_str lib (JStr s) = s"
| "py_str lib v = py_repr lib v"

text \<open>\<open>d.get(k)\<close> and \<open>d.get(k, default)\<close> on a dict.\<close>

definition dict_get :: "(string \<times> json) list \<Rightarrow> string \<Rightarrow> json" where
  "dict_get d k = (case map_of d k of None \<Rightarrow> JNull | Some v \<Rightarrow> v)"

definition dict_get_default :: "(string \<times> json) list \<Rightarrow> string \<Rightarrow> json \<Rightarrow> json" where
  "dict_get_default d k dflt = (case map_of d k of None \<Rightarrow> dflt | Some v \<Rightarrow> v)"

text \<open>The same on a value that need not be a dict: anything else has no \<open>get\<close>.\<close>

fun json_get :: "json \<Rightarrow> string \<Rightarrow> exn + json" where
  "json_get (JObj d) k = Inr (dict_get d k)"
| "json_get v k = Inl (no_attribute v ''get'')"

fun json_get_default :: "json \<Rightarrow> string \<Rightarrow> json \<Rightarrow> exn + json" where
  "json_get_default (JObj d) k dflt = Inr (dict_get_default d k dflt)"
| "json_get_default v k dflt = Inl (no_attribute v ''get'')"


section \<open>The world outside the program\<close>

text \<open>
  The file system, the two model endpoints, the environment and the clock are inputs.
  The effects of a run are recorded in a trace of events; an endpoint's answer may depend
  on how many events came before the call, so the same request need not get the same
  answer twice.
\<close>

datatype stat_result = Missing | Unreadable exn | Size nat

record whisper_request =
  wq_model :: string
  wq_file :: string
  wq_response_format :: string
  wq_prompt :: string

text \<open>
  The transcription object: \<open>text\<close>, and the attributes read with \<open>getattr(\<sqdot>, name, default)\<close>,
  where \<open>None\<close> stands for a missing attribute.
\<close>

record whisper_response =
  wr_text :: string
  wr_duration :: "real option option"
  wr_language :: "string option option"
  wr_segments :: "json option"

record chat_request =
  cq_model :: string
  cq_system :: string
  cq_user :: string
  cq_temperature :: real

datatype usage_attr = Usage_missing | Usage_null | Usage_tokens nat

text \<open>
  A chat completion: \<open>cr_choices\<close> lists \<open>choice.message.content\<close> for each choice
  (\<open>None\<close> for a null content), \<open>cr_usage\<close> is the \<open>usage\<close> attribute.
\<close>

record chat_response =
  cr_choices :: "string option list"
  cr_usage :: usage_attr

datatype event =
    WhisperCall whisper_request
  | ChatCall chat_request
  | FileWrite string string

type_synonym trace = "event list"

record world =
  fs_stat :: "string \<Rightarrow> stat_result"
  fs_open_rb :: "string \<Rightarrow> exn option"
  fs_read_json :: "string \<Rightarrow> exn + json"
  fs_open_w :: "string \<Rightarrow> exn option"
  getenv :: "string \<Rightarrow> string option"
  whisper :: "nat \<Rightarrow> whisper_request \<Rightarrow> exn + whisper_response"
  chat :: "nat \<Rightarrow> chat_request \<Rightarrow> exn + chat_response"
  now_processed_at :: string
  now_analyzed_at :: string
  now_summary_at :: string
  now_file_stamp :: string
  now_footer_stamp :: string

definition whisper_calls :: "trace \<Rightarrow> whisper_request list" where
  "whisper_calls tr = concat (map (\<lambda>e. case e of WhisperCall q \<Rightarrow> [q] | _ \<Rightarrow> []) tr)"

definition chat_calls :: "trace \<Rightarrow> chat_request list" where
  "chat_calls tr = concat (map (\<lambda>e. case e of ChatCall q \<Rightarrow> [q] | _ \<Rightarrow> []) tr)"

text \<open>\<open>try: body  except Exception as e: return handler(e)\<close>.\<close>

definition try_except :: "(exn + 'a) \<times> trace \<Rightarrow> (exn \<Rightarrow> 'a) \<Rightarrow> (exn + 'a) \<times> trace" where
  "try_except body handler =
     (case body of (Inl e, tr) \<Rightarrow> (Inr (handler e), tr) | (Inr r, tr) \<Rightarrow> (Inr r, tr))"


section \<open>app/services/transcription.py: TranscriptionService\<close>

definition max_file_size :: nat where
  "max_file_size = 25 * 1024 * 1024"

text \<open>\<open>Path.exists()\<close> and \<open>Path.stat().st_size\<close>.\<close>

definition path_exists :: "world \<Rightarrow> string \<Rightarrow> exn + bool" where
  "path_exists w p =
     (case fs_stat w p of Missing \<Rightarrow> Inr False | Unreadable e \<Rightarrow> Inl e | Size n \<Rightarrow> Inr True)"

definition st_size :: "world \<Rightarrow> string \<Rightarrow> exn + nat" where
  \<open>st_size w p =
     (case fs_stat w p of
        Missing \<Rightarrow> Inl (Exn FileNotFoundError
                     (''[Errno 2] No such file or directory: '' @ [CHR 0x27] @ p @ [CHR 0x27]))
      | Unreadable e \<Rightarrow> Inl e
      | Size n \<Rightarrow> Inr n)\<close>

text \<open>
  \<open>f"{size / 1024 / 1024:.1f}"\<close>: the size in MiB with one decimal. A size below
  \<open>2^53\<close> bytes is a float exactly, and both divisions are by a power of two, so the
  float that is formatted is exactly \<open>size / 2^20\<close>; the format rounds it to the nearest
  tenth, ties to even, and \<open>tenths_of_mb\<close> is the number of tenths it prints. From
  \<open>2^53\<close> bytes on the first division rounds, and what is printed is left to the
  library parameter \<open>float_format_mb\<close>.
\<close>

definition tenths_of_mb :: "nat \<Rightarrow> nat" where
  "tenths_of_mb n =
     (let q = (10 * n) div 1048576; r = (10 * n) mod 1048576
      in if 2 * r < 1048576 then q
         else if 1048576 < 2 * r then q + 1
         else if even q then q else q + 1)"

definition format_mb :: "pylib \<Rightarrow> nat \<Rightarrow> string" where
  "format_mb lib n =
     (if n < 2 ^ 53
      then show_nat (tenths_of_mb n div 10) @ ''.'' @ show_nat (tenths_of_mb n mod 10)
      else float_format_mb lib n)"

text \<open>
  The result dicts. \<open>Failed e s\<close> is \<open>{"success": False, "error": e, "transcript": None}\<close>,
  with the key \<open>"suggestion"\<close> when \<open>s\<close> is not \<open>None\<close>; \<open>Succeeded d\<close> is a dict with
  \<open>"success": True\<close> and the keys of \<open>d\<close>.
\<close>

datatype 'a transcription_result = Failed string "string option" | Succeeded 'a

fun success :: "'a transcription_result \<Rightarrow> bool" where
  "success (Failed e s) = False"
| "success (Succeeded d) = True"

fun error_of :: "'a transcription_result \<Rightarrow> string option" where
  "error_of (Failed e s) = Some e"
| "error_of (Succeeded d) = None"

fun suggestion_of :: "'a transcription_result \<Rightarrow> string option" where
  "suggestion_of (Failed e s) = s"
| "suggestion_of (Succeeded d) = None"

record file_transcript =
  ft_transcript :: string
  ft_duration :: "real option"
  ft_language :: "string option"
  ft_segments :: json

record enhanced_transcript =
  en_text :: string
  en_sections :: "json list"
  en_error :: "string option"

record meeting_transcript =
  mt_transcript :: string
  mt_meeting_info :: "(string \<times> json) list"
  mt_duration :: "real option"
  mt_language :: "string option"
  mt_segments :: json
  mt_cost_estimate :: real
  mt_processed_at :: string
  mt_enhanced_sections :: "json list"

text \<open>The value under the key \<open>"transcript"\<close>; \<open>None\<close> is Python's \<open>None\<close>.\<close>

fun transcript_of :: "meeting_transcript transcription_result \<Rightarrow> string option" where
  "transcript_of (Failed e s) = None"
| "transcript_of (Succeeded d) = Some (mt_transcript d)"

definition whisper_prompt :: string where
  "whisper_prompt = ''This is a Triangle area planning commission meeting discussing development projects, zoning, and permits.''"

text \<open>The arguments of \<open>client.audio.transcriptions.create\<close> in \<open>_transcribe_file\<close>.\<close>

definition transcription_request :: "string \<Rightarrow> whisper_request" where
  "transcription_request file_path =
     \<lparr>wq_model = ''whisper-1'', wq_file = file_path,
      wq_response_format = ''verbose_json'', wq_prompt = whisper_prompt\<rparr>"

definition transcribe_file ::
  "world \<Rightarrow> string \<Rightarrow> trace \<Rightarrow> file_transcript transcription_result \<times> trace" where
  "transcribe_file w file_path tr =
     (case fs_open_rb w file_path of
        Some e \<Rightarrow> (Failed (''OpenAI Whisper error: '' @ str_exn e) None, tr)
      | None \<Rightarrow>
          (let req = transcription_request file_path;
               tr' = tr @ [WhisperCall req]
           in case whisper w (length tr) req of
                Inl e \<Rightarrow> (Failed (''OpenAI Whisper error: '' @ str_exn e) None, tr')
              | Inr transcript \<Rightarrow>
                  (Succeeded
                     \<lparr>ft_transcript = wr_text transcript,
                      ft_duration = (case wr_duration transcript of None \<Rightarrow> None | Some d \<Rightarrow> d),
                      ft_language = (case wr_language transcript of None \<Rightarrow> None | Some l \<Rightarrow> l),
                      ft_segments = (case wr_segments transcript of None \<Rightarrow> JArr [] | Some s \<Rightarrow> s)\<rparr>,
                   tr')))"

definition enhancement_prompt :: "pylib \<Rightarrow> string \<Rightarrow> (string \<times> json) list \<Rightarrow> string" where
  \<open>enhancement_prompt lib raw_transcript meeting_info = concat [
    ''\<newline>'',
    ''            Clean up this Triangle planning meeting transcript and organize it for analysis.\<newline>'',
    ''            \<newline>'',
    ''            Meeting Context:\<newline>'',
    ''            - Jurisdiction: '',
    py_str lib (dict_get_default meeting_info ''jurisdiction'' (JStr ''Unknown'')),
    ''\<newline>'',
    ''            - Date: '',
    py_str lib (dict_get_default meeting_info ''date'' (JStr ''Unknown'')),
    ''\<newline>'',
    ''            - Meeting Type: '',
    py_str lib (dict_get_default meeting_info ''type'' (JStr ''Planning Commission'')),
    ''\<newline>'',
    ''            \<newline>'',
    ''            Please:\<newline>'',
    ''            1. Fix obvious transcription errors\<newline>'',
    ''            2. Identify distinct speakers when possible (Chair, Commissioners, Staff, Public)\<newline>'',
    ''            3. Break into logical sections (Agenda items, Project discussions, Public comments)\<newline>'',
    ''            4. Preserve all project names, addresses, developer names, and vote outcomes\<newline>'',
    ''            \<newline>'',
    ''            Return JSON format:\<newline>'',
    ''            {\<newline>'',
    ''                "text": "cleaned_full_transcript",\<newline>'',
    ''                "sections": [\<newline>'',
    ''                    {\<newline>'',
    ''                        "title": "section_name",\<newline>'',
    ''                        "content": "section_content",\<newline>'',
    ''                        "speakers": ["list_of_speakers"],\<newline>'',
    ''                        "key_topics": ["project_names", "addresses"]\<newline>'',
    ''                    }\<newline>'',
    ''                ]\<newline>'',
    ''            }\<newline>'',
    ''            \<newline>'',
    ''            Original Transcript:\<newline>'',
    ''            '',
    take 8000 raw_transcript,
    ''  # Limit to avoid token limits\<newline>'',
    ''            '']\<close>

text \<open>
  \<open>_enhance_transcript\<close> builds the prompt and does not use it: no endpoint is called.
  Nothing in its \<open>try\<close> block raises on a \<open>str\<close> and a \<open>dict\<close>, so the \<open>except\<close>
  branch (which returns the same text and sections, with an \<open>"error"\<close> key) is not reached.
\<close>

definition enhance_transcript ::
  "pylib \<Rightarrow> string \<Rightarrow> (string \<times> json) list \<Rightarrow> enhanced_transcript" where
  "enhance_transcript lib raw_transcript meeting_info =
     (let prompt = enhancement_prompt lib raw_transcript meeting_info
      in \<lparr>en_text = raw_transcript, en_sections = [], en_error = None\<rparr>)"

definition handle_large_file ::
  "pylib \<Rightarrow> world \<Rightarrow> string \<Rightarrow> (string \<times> json) list
     \<Rightarrow> exn + meeting_transcript transcription_result" where
  "handle_large_file lib w file_path meeting_info =
     (case st_size w file_path of
        Inl e \<Rightarrow> Inl e
      | Inr n \<Rightarrow>
          Inr (Failed (''File too large ('' @ format_mb lib n @ ''MB). Maximum size is 25MB.'')
                 (Some ''Please use audio optimization tools to reduce file size or implement file chunking.'')))"

text \<open>
  The cost is a float product in the source; it is modelled in exact arithmetic.
\<close>

definition calculate_cost :: "real option \<Rightarrow> real" where
  "calculate_cost duration_minutes =
     (case duration_minutes of None \<Rightarrow> 0 | Some d \<Rightarrow> d * (6 / 1000))"

text \<open>
  \<open>file_path\<close> stands for the string of \<open>Path(file_path)\<close>.
\<close>

definition transcribe_meeting ::
  "pylib \<Rightarrow> world \<Rightarrow> string \<Rightarrow> (string \<times> json) list \<Rightarrow> trace
     \<Rightarrow> (exn + meeting_transcript transcription_result) \<times> trace" where
  "transcribe_meeting lib w file_path meeting_info tr =
     try_except
       (case path_exists w file_path of
          Inl e \<Rightarrow> (Inl e, tr)
        | Inr False \<Rightarrow> (Inr (Failed (''File not found: '' @ file_path) None), tr)
        | Inr True \<Rightarrow>
            (case st_size w file_path of
               Inl e \<Rightarrow> (Inl e, tr)
             | Inr n \<Rightarrow>
                 if n > max_file_size then (handle_large_file lib w file_path meeting_info, tr)
                 else
                   (case transcribe_file w file_path tr of
                      (Failed e s, tr') \<Rightarrow> (Inr (Failed e s), tr')
                    | (Succeeded transcript_result, tr') \<Rightarrow>
                        (let enhanced_result =
                               enhance_transcript lib (ft_transcript transcript_result) meeting_info
                         in (Inr (Succeeded
                               \<lparr>mt_transcript = en_text enhanced_result,
                                mt_meeting_info = meeting_info,
                                mt_duration = ft_duration transcript_result,
                                mt_language = ft_language transcript_result,
                                mt_segments = ft_segments transcript_result,
                                mt_cost_estimate = calculate_cost (ft_duration transcript_result),
                                mt_processed_at = now_processed_at w,
                                mt_enhanced_sections = en_sections enhanced_result\<rparr>),
                             tr')))))
       (\<lambda>e. Failed (''Transcription failed: '' @ str_exn e) None)"


section \<open>app/services/transcription.py: MeetingAnalysisService\<close>

text \<open>
  \<open>_build_analysis_prompt\<close> is one f-string with the transcript slice as its last field:
  \<open>service_prompt_head\<close> is the text before that field, \<open>service_prompt_tail\<close> the text
  after it (the \<open>#\<close> remark is inside the string literal, so it is part of the prompt).
\<close>

definition service_prompt_head :: "pylib \<Rightarrow> (string \<times> json) list \<Rightarrow> string" where
  \<open>service_prompt_head lib meeting_info = concat [
    ''\<newline>'',
    ''        Analyze this '',
    py_str lib (dict_get_default meeting_info ''jurisdiction'' (JStr ''Triangle'')),
    '' planning meeting transcript and extract development intelligence for a professional newsletter.\<newline>'',
    ''        \<newline>'',
    ''        Meeting Details:\<newline>'',
    ''        - Jurisdiction: '',
    py_str lib (dict_get_default meeting_info ''jurisdiction'' (JStr ''Unknown'')),
    ''\<newline>'',
    ''        - Date: '',
    py_str lib (dict_get_default meeting_info ''date'' (JStr ''Unknown'')),
    ''\<newline>'',
    ''        - Type: '',
    py_str lib (dict_get_default meeting_info ''type'' (JStr ''Planning Commission'')),
    ''\<newline>'',
    ''        \<newline>'',
    ''        Extract and return JSON with these sections:\<newline>'',
    ''        \<newline>'',
    ''        {\<newline>'',
    ''            "projects": [\<newline>'',
    ''                {\<newline>'',
    ''                    "name": "project_name",\<newline>'',
    ''                    "address": "street_address",\<newline>'',
    ''                    "developer": "developer_company",\<newline>'',
    ''                    "applicant": "applicant_name",\<newline>'',
    ''                    "project_type": "residential/commercial/mixed-use/etc",\<newline>'',
    ''                    "current_status": "application/review/approval/denial/deferred",\<newline>'',
    ''                    "vote_outcome": "approved/denied/deferred/no_vote",\<newline>'',
    ''                    "vote_details": "vote_count_if_available",\<newline>'',
    ''                    "key_concerns": ["list", "of", "concerns"],\<newline>'',
    ''                    "conditions": ["approval", "conditions"],\<newline>'',
    ''                    "timeline": "next_steps_or_deadlines",\<newline>'',
    ''                    "opposition": "summary_of_public_opposition",\<newline>'',
    ''                    "staff_recommendation": "staff_position"\<newline>'',
    ''                }\<newline>'',
    ''            ],\<newline>'',
    ''            "regulatory_changes": [\<newline>'',
    ''                {\<newline>'',
    ''                    "topic": "ordinance/fee/policy_change",\<newline>'',
    ''                    "description": "what_changed",\<newline>'',
    ''                    "impact": "effect_on_development",\<newline>'',
    ''                    "effective_date": "when_it_takes_effect"\<newline>'',
    ''                }\<newline>'',
    ''            ],\<newline>'',
    ''            "market_intelligence": [\<newline>'',
    ''                {\<newline>'',
    ''                    "trend": "observed_pattern",\<newline>'',
    ''                    "description": "trend_details",\<newline>'',
    ''                    "implications": "what_it_means_for_developers"\<newline>'',
    ''                }\<newline>'',
    ''            ],\<newline>'',
    ''            "key_people": [\<newline>'',
    ''                {\<newline>'',
    ''                    "name": "person_name",\<newline>'',
    ''                    "role": "commissioner/staff/developer",\<newline>'',
    ''                    "notable_positions": "key_statements_or_positions"\<newline>'',
    ''                }\<newline>'',
    ''            ],\<newline>'',
    ''            "newsletter_highlights": [\<newline>'',
    ''                "Most important takeaway 1",\<newline>'',
    ''                "Most important takeaway 2",\<newline>'',
    ''                "Most important takeaway 3"\<newline>'',
    ''            ]\<newline>'',
    ''        }\<newline>'',
    ''        \<newline>'',
    ''        Focus on actionable intelligence that Triangle development professionals need to know.\<newline>'',
    ''        \<newline>'',
    ''        Transcript:\<newline>'',
    ''        '']\<close>

definition service_prompt_tail :: "string" where
  \<open>service_prompt_tail = concat [
    ''  # Limit transcript to avoid token limits\<newline>'',
    ''        '']\<close>

definition service_build_analysis_prompt ::
  "pylib \<Rightarrow> string \<Rightarrow> (string \<times> json) list \<Rightarrow> string" where
  "service_build_analysis_prompt lib transcript meeting_info =
     service_prompt_head lib meeting_info @ take 12000 transcript @ service_prompt_tail"

text \<open>
  The result dicts of \<open>analyze_transcript\<close>: \<open>Analysis_failed e\<close> is
  \<open>{"success": False, "error": e, "analysis": None}\<close>.
\<close>

record analysis_ok =
  an_analysis :: json
  an_meeting_info :: "(string \<times> json) list"
  an_analyzed_at :: string
  an_token_usage :: "nat option"

datatype analysis_result = Analysis_failed string | Analysis_ok analysis_ok

fun analysis_success :: "analysis_result \<Rightarrow> bool" where
  "analysis_success (Analysis_failed e) = False"
| "analysis_success (Analysis_ok d) = True"

fun analysis_error_of :: "analysis_result \<Rightarrow> string option" where
  "analysis_error_of (Analysis_failed e) = Some e"
| "analysis_error_of (Analysis_ok d) = None"

text \<open>The value under \<open>"analysis"\<close>; \<open>None\<close> is Python's \<open>None\<close>.\<close>

fun analysis_of :: "analysis_result \<Rightarrow> json option" where
  "analysis_of (Analysis_failed e) = None"
| "analysis_of (Analysis_ok d) = Some (an_analysis d)"

fun token_usage_of :: "analysis_result \<Rightarrow> nat option" where
  "token_usage_of (Analysis_failed e) = None"
| "token_usage_of (Analysis_ok d) = an_token_usage d"

text \<open>\<open>response.choices[0].message.content\<close>.\<close>

definition first_content :: "chat_response \<Rightarrow> exn + string option" where
  "first_content response =
     (case cr_choices response of
        [] \<Rightarrow> Inl (Exn IndexError ''list index out of range'')
      | c # cs \<Rightarrow> Inr c)"

text \<open>
  The parse step, the same in \<open>MeetingAnalysisService.analyze_transcript\<close> and in
  \<open>analyze_transcript\<close> of \<open>analyze_transcript_fixed.py\<close>:
  \<open>try: json.loads(text)  except json.JSONDecodeError: {"raw_analysis": text}\<close>.
  The handler names \<open>JSONDecodeError\<close> only, so any other exception of \<open>json.loads\<close>
  leaves the step.
\<close>

definition raw_analysis :: "string \<Rightarrow> json" where
  "raw_analysis analysis_text = JObj [(''raw_analysis'', JStr analysis_text)]"

definition parse_analysis :: "pylib \<Rightarrow> string \<Rightarrow> exn + json" where
  "parse_analysis lib analysis_text =
     (case json_loads lib analysis_text of
        Inr v \<Rightarrow> Inr v
      | Inl e \<Rightarrow>
          if exn_class_of e = JSONDecodeError then Inr (raw_analysis analysis_text) else Inl e)"

definition analysis_system_prompt :: string where
  "analysis_system_prompt = ''You are an expert Triangle area development analyst who extracts key information from planning meetings.''"

text \<open>The arguments of \<open>chat.completions.create\<close> in \<open>analyze_transcript\<close>.\<close>

definition analysis_request :: "string \<Rightarrow> chat_request" where
  "analysis_request analysis_prompt =
     \<lparr>cq_model = ''gpt-4'', cq_system = analysis_system_prompt,
      cq_user = analysis_prompt, cq_temperature = 1 / 10\<rparr>"

text \<open>
  \<open>response.usage.total_tokens if hasattr(response, 'usage') else None\<close>: a \<open>usage\<close>
  that is present and null has no \<open>total_tokens\<close>.
\<close>

definition token_usage :: "chat_response \<Rightarrow> exn + nat option" where
  "token_usage response =
     (case cr_usage response of
        Usage_missing \<Rightarrow> Inr None
      | Usage_null \<Rightarrow> Inl (no_attribute JNull ''total_tokens'')
      | Usage_tokens n \<Rightarrow> Inr (Some n))"

definition analyze_transcript ::
  "pylib \<Rightarrow> world \<Rightarrow> string \<Rightarrow> (string \<times> json) list \<Rightarrow> trace
     \<Rightarrow> (exn + analysis_result) \<times> trace" where
  "analyze_transcript lib w transcript meeting_info tr =
     try_except
       (let analysis_prompt = service_build_analysis_prompt lib transcript meeting_info;
            req = analysis_request analysis_prompt;
            tr' = tr @ [ChatCall req]
        in case chat w (length tr) req of
             Inl e \<Rightarrow> (Inl e, tr')
           | Inr response \<Rightarrow>
               (case first_content response of
                  Inl e \<Rightarrow> (Inl e, tr')
                | Inr None \<Rightarrow>
                    (Inl (Exn TypeError
                       ''the JSON object must be str, bytes or bytearray, not NoneType''), tr')
                | Inr (Some analysis_text) \<Rightarrow>
                    (case parse_analysis lib analysis_text of
                       Inl e \<Rightarrow> (Inl e, tr')
                     | Inr analysis_data \<Rightarrow>
                         (case token_usage response of
                            Inl e \<Rightarrow> (Inl e, tr')
                          | Inr tokens \<Rightarrow>
                              (Inr (Analysis_ok
                                 \<lparr>an_analysis = analysis_data, an_meeting_info = meeting_info,
                                  an_analyzed_at = now_analyzed_at w, an_token_usage = tokens\<rparr>),
                               tr')))))
       (\<lambda>e. Analysis_failed (''Analysis failed: '' @ str_exn e))"


section \<open>app/services/transcription.py: MeetingProcessor\<close>

record processing_summary =
  ps_transcription_cost :: real
  ps_transcript_length :: nat
  ps_analysis_tokens :: "nat option"
  ps_processed_at :: string

record stage_errors =
  transcription_error :: "string option"
  analysis_error :: "string option"

record combined_result =
  cb_success :: bool
  cb_transcript :: string
  cb_analysis :: "json option"
  cb_meeting_info :: "(string \<times> json) list"
  cb_processing_summary :: processing_summary
  cb_errors :: stage_errors

text \<open>
  \<open>process_meeting_file\<close> returns one of two dicts: the dict it got from
  \<open>transcribe_meeting\<close>, as it is, or the combined dict it builds after the analysis.
\<close>

datatype pipeline_result =
    Transcript_result "meeting_transcript transcription_result"
  | Combined combined_result

fun pipeline_success :: "pipeline_result \<Rightarrow> bool" where
  "pipeline_success (Transcript_result r) = success r"
| "pipeline_success (Combined c) = cb_success c"

text \<open>\<open>result.get("errors")\<close>: \<open>None\<close> when the dict has no such key.\<close>

fun pipeline_errors :: "pipeline_result \<Rightarrow> stage_errors option" where
  "pipeline_errors (Transcript_result r) = None"
| "pipeline_errors (Combined c) = Some (cb_errors c)"

definition process_meeting_file ::
  "pylib \<Rightarrow> world \<Rightarrow> string \<Rightarrow> (string \<times> json) list \<Rightarrow> trace
     \<Rightarrow> (exn + pipeline_result) \<times> trace" where
  "process_meeting_file lib w file_path meeting_info tr =
     (case transcribe_meeting lib w file_path meeting_info tr of
        (Inl e, tr1) \<Rightarrow> (Inl e, tr1)
      | (Inr (Failed e s), tr1) \<Rightarrow> (Inr (Transcript_result (Failed e s)), tr1)
      | (Inr (Succeeded transcript_result), tr1) \<Rightarrow>
          (case analyze_transcript lib w (mt_transcript transcript_result) meeting_info tr1 of
             (Inl e, tr2) \<Rightarrow> (Inl e, tr2)
           | (Inr analysis_result, tr2) \<Rightarrow>
               (Inr (Combined
                  \<lparr>cb_success = analysis_success analysis_result,
                   cb_transcript = mt_transcript transcript_result,
                   cb_analysis = analysis_of analysis_result,
                   cb_meeting_info = meeting_info,
                   cb_processing_summary =
                     \<lparr>ps_transcription_cost = mt_cost_estimate transcript_result,
                      ps_transcript_length =
                        (if mt_transcript transcript_result \<noteq> []
                         then length (mt_transcript transcript_result) else 0),
                      ps_analysis_tokens = token_usage_of analysis_result,
                      ps_processed_at = now_summary_at w\<rparr>,
                   cb_errors =
                     \<lparr>transcription_error =
                        (if success (Succeeded transcript_result) then None
                         else error_of (Succeeded transcript_result)),
                      analysis_error =
                        (if analysis_success analysis_result then None
                         else analysis_error_of analysis_result)\<rparr>\<rparr>),
                tr2)))"


section \<open>analyze_transcript_fixed.py: the prompt of the standalone script\<close>

text \<open>
  \<open>build_analysis_prompt\<close> of the script is again one f-string whose last field is the
  transcript; here the field is \<open>{transcript}\<close>, with no slice.
\<close>

definition script_prompt_head :: "pylib \<Rightarrow> (string \<times> json) list \<Rightarrow> string" where
  \<open>script_prompt_head lib meeting_info = concat [
    ''\<newline>'',
    ''Analyze this '',
    py_str lib (dict_get_default meeting_info ''jurisdiction'' (JStr ''Triangle'')),
    '' planning meeting transcript and extract development intelligence for the Triangle Development Digest newsletter.\<newline>'',
    ''\<newline>'',
    ''Meeting Details:\<newline>'',
    ''- Jurisdiction: '',
    py_str lib (dict_get_default meeting_info ''jurisdiction'' (JStr ''Unknown'')),
    ''\<newline>'',
    ''- Date: '',
    py_str lib (dict_get_default meeting_info ''date'' (JStr ''Unknown'')),
    ''\<newline>'',
    ''- Type: '',
    py_str lib (dict_get_default meeting_info ''type'' (JStr ''Planning Commission'')),
    ''\<newline>'',
    ''\<newline>'',
    ''Extract and return JSON with these sections:\<newline>'',
    ''\<newline>'',
    ''{\<newline>'',
    ''    "projects": [\<newline>'',
    ''        {\<newline>'',
    ''            "name": "project_name or case_number",\<newline>'',
    ''            "address": "street_address or location", \<newline>'',
    ''            "case_number": "zoning_case_number if mentioned",\<newline>'',
    ''            "developer": "developer_company",\<newline>'',
    ''            "applicant": "applicant_name",\<newline>'',
    ''            "project_type": "residential/commercial/mixed-use/rezoning/etc",\<newline>'',
    ''            "current_status": "application/review/approval/denial/deferred",\<newline>'',
    ''            "vote_outcome": "approved/denied/deferred/no_vote",\<newline>'',
    ''            "vote_details": "vote_count_if_available (e.g. 9-0, 7-2)",\<newline>'',
    ''            "key_concerns": ["list", "of", "concerns", "raised"],\<newline>'',
    ''            "conditions": ["approval", "conditions", "if any"],\<newline>'',
    ''            "timeline": "next_steps_or_deadlines",\<newline>'',
    ''            "opposition": "summary_of_public_opposition",\<newline>'',
    ''            "staff_recommendation": "staff_position",\<newline>'',
    ''            "acreage": "land_size_if_mentioned",\<newline>'',
    ''            "previous_action": "history_from_previous_meetings"\<newline>'',
    ''        }\<newline>'',
    ''    ],\<newline>'',
    ''    "key_people": [\<newline>'',
    ''        {\<newline>'',
    ''            "name": "person_name",\<newline>'',
    ''            "role": "commissioner/staff/developer/citizen",\<newline>'',
    ''            "notable_positions": "key_statements_or_positions"\<newline>'',
    ''        }\<newline>'',
    ''    ],\<newline>'',
    ''    "newsletter_highlights": [\<newline>'',
    ''        "Most important takeaway for Triangle developers 1",\<newline>'',
    ''        "Most important takeaway for Triangle developers 2", \<newline>'',
    ''        "Most important takeaway for Triangle developers 3"\<newline>'',
    ''    ]\<newline>'',
    ''}\<newline>'',
    ''\<newline>'',
    ''Focus on actionable intelligence that Triangle development professionals need to know. Pay special attention to:\<newline>'',
    ''- Specific project names, addresses, and case numbers\<newline>'',
    ''- Vote outcomes and commissioner positions  \<newline>'',
    ''- Timeline and next steps\<newline>'',
    ''- Staff recommendations and their success rate\<newline>'',
    ''\<newline>'',
    ''Transcript:\<newline>'']\<close>

definition script_prompt_tail :: "string" where
  \<open>script_prompt_tail = concat [
    ''\<newline>'']\<close>

definition script_build_analysis_prompt ::
  "pylib \<Rightarrow> string \<Rightarrow> (string \<times> json) list \<Rightarrow> string" where
  "script_build_analysis_prompt lib transcript meeting_info =
     script_prompt_head lib meeting_info @ transcript @ script_prompt_tail"


section \<open>generate_newsletter.py\<close>

text \<open>
  The dict \<open>newsletter_sections\<close> is an association list in insertion order; a value is
  the \<open>content\<close> of a completion (\<open>None\<close> when the content is null) or an error text.
\<close>

type_synonym sections = "(string \<times> string option) list"

text \<open>
  The \<open>try\<close> block shared, word for word but for the label, by the five
  \<open>generate_\<dots>\<close> functions: one request to \<open>gpt-4\<close> at temperature 0.3, returning the
  content of the first choice, or the error text when anything in the block raises.
  The system message and the prompt of each function are its \<open>\<dots>_request\<close>.
\<close>

definition section_request :: "string \<Rightarrow> string \<Rightarrow> chat_request" where
  "section_request system_prompt prompt =
     \<lparr>cq_model = ''gpt-4'', cq_system = system_prompt,
      cq_user = prompt, cq_temperature = 3 / 10\<rparr>"

definition error_text :: "string \<Rightarrow> exn \<Rightarrow> string" where
  "error_text label e = ''Error generating '' @ label @ '' content: '' @ str_exn e"

definition section_value :: "string \<Rightarrow> exn + chat_response \<Rightarrow> string option" where
  "section_value label outcome =
     (case outcome of
        Inl e \<Rightarrow> Some (error_text label e)
      | Inr response \<Rightarrow>
          (case first_content response of
             Inl e \<Rightarrow> Some (error_text label e)
           | Inr content \<Rightarrow> content))"

definition request_section ::
  "world \<Rightarrow> chat_request \<Rightarrow> string \<Rightarrow> trace \<Rightarrow> string option \<times> trace" where
  "request_section w req label tr =
     (section_value label (chat w (length tr) req), tr @ [ChatCall req])"

definition project_pipeline_prompt :: "pylib \<Rightarrow> json \<Rightarrow> (string \<times> json) list \<Rightarrow> string" where
  \<open>project_pipeline_prompt lib projects meeting_info = concat [
    ''\<newline>'',
    ''Write a professional "Project Pipeline" section for the Triangle Development Digest newsletter.\<newline>'',
    ''\<newline>'',
    ''Meeting: '',
    py_str lib (dict_get meeting_info ''jurisdiction''),
    '' '',
    py_str lib (dict_get meeting_info ''type''),
    '' - '',
    py_str lib (dict_get meeting_info ''date''),
    ''\<newline>'',
    ''\<newline>'',
    ''Projects to cover:\<newline>'',
    json_dumps lib projects,
    ''\<newline>'',
    ''\<newline>'',
    ''Style Guidelines:\<newline>'',
    ''- Professional but accessible tone\<newline>'',
    ''- Focus on actionable intelligence for developers\<newline>'',
    ''- Include specific project details (addresses, developers, timelines)\<newline>'',
    ''- Highlight vote outcomes and next steps\<newline>'',
    ''- 150-250 words\<newline>'',
    ''- Use bullet points for key details\<newline>'',
    ''\<newline>'',
    ''Format as a complete newsletter section with a compelling headline.\<newline>'']\<close>

definition project_pipeline_request ::
  "pylib \<Rightarrow> (string \<times> json) list \<Rightarrow> (string \<times> json) list \<Rightarrow> chat_request" where
  "project_pipeline_request lib analysis meeting_info =
     (let projects = dict_get_default analysis ''projects'' (JArr [])
      in section_request
           ''You are a professional newsletter writer for Triangle development professionals.''
           (project_pipeline_prompt lib projects meeting_info))"

definition generate_project_pipeline ::
  "pylib \<Rightarrow> world \<Rightarrow> (string \<times> json) list \<Rightarrow> (string \<times> json) list \<Rightarrow> trace
     \<Rightarrow> string option \<times> trace" where
  "generate_project_pipeline lib w analysis meeting_info tr =
     request_section w (project_pipeline_request lib analysis meeting_info)
       ''project pipeline'' tr"

definition market_intelligence_prompt :: "pylib \<Rightarrow> (string \<times> json) list \<Rightarrow> (string \<times> json) list \<Rightarrow> string" where
  \<open>market_intelligence_prompt lib analysis meeting_info = concat [
    ''\<newline>'',
    ''Write a "Market Intelligence" section for the Triangle Development Digest newsletter.\<newline>'',
    ''\<newline>'',
    ''Meeting: '',
    py_str lib (dict_get meeting_info ''jurisdiction''),
    '' '',
    py_str lib (dict_get meeting_info ''type''),
    '' - '',
    py_str lib (dict_get meeting_info ''date''),
    ''\<newline>'',
    ''\<newline>'',
    ''Analysis Data:\<newline>'',
    json_dumps lib (JObj analysis),
    ''\<newline>'',
    ''\<newline>'',
    ''Focus on:\<newline>'',
    ''- Development trends observed in this meeting\<newline>'',
    ''- Commissioner attitudes toward development\<newline>'',
    ''- Opposition patterns and community concerns\<newline>'',
    ''- Process insights that affect project timelines\<newline>'',
    ''- Strategic implications for developers\<newline>'',
    ''\<newline>'',
    ''Style: Insightful analysis that helps developers understand the political and market landscape.\<newline>'',
    ''Length: 150-200 words\<newline>'',
    ''Include a compelling headline.\<newline>'']\<close>

definition market_intelligence_request ::
  "pylib \<Rightarrow> (string \<times> json) list \<Rightarrow> (string \<times> json) list \<Rightarrow> chat_request" where
  "market_intelligence_request lib analysis meeting_info =
     section_request
       ''You are a market analyst specializing in Triangle area development trends.''
       (market_intelligence_prompt lib analysis meeting_info)"

definition generate_market_intelligence ::
  "pylib \<Rightarrow> world \<Rightarrow> (string \<times> json) list \<Rightarrow> (string \<times> json) list \<Rightarrow> trace
     \<Rightarrow> string option \<times> trace" where
  "generate_market_intelligence lib w analysis meeting_info tr =
     request_section w (market_intelligence_request lib analysis meeting_info)
       ''market intelligence'' tr"

definition regulatory_watch_prompt :: "pylib \<Rightarrow> (string \<times> json) list \<Rightarrow> (string \<times> json) list \<Rightarrow> string" where
  \<open>regulatory_watch_prompt lib analysis meeting_info = concat [
    ''\<newline>'',
    ''Write a "Regulatory Watch" section for the Triangle Development Digest newsletter.\<newline>'',
    ''\<newline>'',
    ''Meeting: '',
    py_str lib (dict_get meeting_info ''jurisdiction''),
    '' '',
    py_str lib (dict_get meeting_info ''type''),
    '' - '',
    py_str lib (dict_get meeting_info ''date''),
    ''\<newline>'',
    ''\<newline>'',
    ''Analysis Data:\<newline>'',
    json_dumps lib (JObj analysis),
    ''\<newline>'',
    ''\<newline>'',
    ''Focus on:\<newline>'',
    ''- Process changes or improvements mentioned\<newline>'',
    ''- New requirements or conditions being imposed\<newline>'',
    ''- Staff recommendation patterns\<newline>'',
    ''- Timeline and deadline insights\<newline>'',
    ''- Regulatory efficiency observations\<newline>'',
    ''\<newline>'',
    ''If no major regulatory changes were discussed, focus on process insights and timing observations that would help developers navigate the system more effectively.\<newline>'',
    ''\<newline>'',
    ''Style: Practical guidance for development professionals\<newline>'',
    ''Length: 100-150 words\<newline>'',
    ''Include headline focused on regulatory insights.\<newline>'']\<close>

definition regulatory_watch_request ::
  "pylib \<Rightarrow> (string \<times> json) list \<Rightarrow> (string \<times> json) list \<Rightarrow> chat_request" where
  "regulatory_watch_request lib analysis meeting_info =
     section_request
       ''You are a regulatory affairs expert focused on Triangle development processes.''
       (regulatory_watch_prompt lib analysis meeting_info)"

definition generate_regulatory_watch ::
  "pylib \<Rightarrow> world \<Rightarrow> (string \<times> json) list \<Rightarrow> (string \<times> json) list \<Rightarrow> trace
     \<Rightarrow> string option \<times> trace" where
  "generate_regulatory_watch lib w analysis meeting_info tr =
     request_section w (regulatory_watch_request lib analysis meeting_info)
       ''regulatory watch'' tr"

definition people_politics_prompt :: "pylib \<Rightarrow> json \<Rightarrow> (string \<times> json) list \<Rightarrow> string" where
  \<open>people_politics_prompt lib people meeting_info = concat [
    ''\<newline>'',
    ''Write a "People & Politics" section for the Triangle Development Digest newsletter.\<newline>'',
    ''\<newline>'',
    ''Meeting: '',
    py_str lib (dict_get meeting_info ''jurisdiction''),
    '' '',
    py_str lib (dict_get meeting_info ''type''),
    '' - '',
    py_str lib (dict_get meeting_info ''date''),
    ''\<newline>'',
    ''\<newline>'',
    ''Key People:\<newline>'',
    json_dumps lib people,
    ''\<newline>'',
    ''\<newline>'',
    ''Focus on:\<newline>'',
    ''- Commissioner positions and voting patterns\<newline>'',
    ''- Staff recommendations and their success rate\<newline>'',
    ''- Developer/applicant strategies and presentations\<newline>'',
    ''- Community opposition leaders and their concerns\<newline>'',
    ''- Political dynamics that affect development approval\<newline>'',
    ''\<newline>'',
    ''Style: Professional insider intelligence that helps developers understand the human dynamics\<newline>'',
    ''Length: 100-150 words\<newline>'',
    ''Include headline about political insights or key relationships.\<newline>'']\<close>

definition people_politics_request ::
  "pylib \<Rightarrow> (string \<times> json) list \<Rightarrow> (string \<times> json) list \<Rightarrow> chat_request" where
  "people_politics_request lib analysis meeting_info =
     (let people = dict_get_default analysis ''key_people'' (JArr [])
      in section_request
           ''You are a political analyst covering Triangle development and planning politics.''
           (people_politics_prompt lib people meeting_info))"

definition generate_people_politics ::
  "pylib \<Rightarrow> world \<Rightarrow> (string \<times> json) list \<Rightarrow> (string \<times> json) list \<Rightarrow> trace
     \<Rightarrow> string option \<times> trace" where
  "generate_people_politics lib w analysis meeting_info tr =
     request_section w (people_politics_request lib analysis meeting_info)
       ''people & politics'' tr"

definition bullet :: string where
  "bullet = [CHR 0xE2, CHR 0x80, CHR 0xA2]"

text \<open>
  \<open>[f"\<bullet> {highlight}" for highlight in highlights]\<close>: a list is iterated by element, a
  string by character, a dict by key; anything else is not iterable.
\<close>

fun highlight_items :: "pylib \<Rightarrow> json \<Rightarrow> exn + string list" where
  "highlight_items lib (JArr xs) = Inr (map (\<lambda>highlight. bullet @ '' '' @ py_str lib highlight) xs)"
| "highlight_items lib (JStr s) = Inr (map (\<lambda>c. bullet @ '' '' @ [c]) s)"
| "highlight_items lib (JObj kvs) = Inr (map (\<lambda>kv. bullet @ '' '' @ fst kv) kvs)"
| "highlight_items lib v =
     Inl (Exn TypeError ([CHR 0x27] @ py_type_name v @ [CHR 0x27] @ '' object is not iterable''))"

text \<open>\<open>sep.join(items)\<close>.\<close>

fun join :: "string \<Rightarrow> string list \<Rightarrow> string" where
  "join sep [] = []"
| "join sep [x] = x"
| "join sep (x # y # ys) = x @ sep @ join sep (y # ys)"

definition executive_summary_prompt :: "pylib \<Rightarrow> string \<Rightarrow> (string \<times> json) list \<Rightarrow> (string \<times> json) list \<Rightarrow> string" where
  \<open>executive_summary_prompt lib highlight_lines analysis meeting_info = concat [
    ''\<newline>'',
    ''Write an "Executive Summary" section for the Triangle Development Digest newsletter.\<newline>'',
    ''\<newline>'',
    ''Meeting: '',
    py_str lib (dict_get meeting_info ''jurisdiction''),
    '' '',
    py_str lib (dict_get meeting_info ''type''),
    '' - '',
    py_str lib (dict_get meeting_info ''date''),
    ''\<newline>'',
    ''\<newline>'',
    ''Key Highlights:\<newline>'',
    highlight_lines,
    ''\<newline>'',
    ''\<newline>'',
    ''Full Analysis:\<newline>'',
    json_dumps lib (JObj analysis),
    ''\<newline>'',
    ''\<newline>'',
    ''Create a compelling executive summary that:\<newline>'',
    ''- Captures the most important developments for Triangle developers\<newline>'',
    ''- Highlights key opportunities and risks\<newline>'',
    ''- Provides actionable takeaways\<newline>'',
    ''- Sets context for the detailed sections that follow\<newline>'',
    ''\<newline>'',
    ''Style: Executive briefing tone - concise but comprehensive\<newline>'',
    ''Length: 75-125 words\<newline>'',
    ''Start with a strong headline that captures the meeting's significance.\<newline>'']\<close>

text \<open>
  \<open>generate_executive_summary\<close> formats the highlights before its \<open>try\<close> block, so a
  value of \<open>newsletter_highlights\<close> that cannot be iterated makes it raise.
\<close>

definition executive_summary_request ::
  "pylib \<Rightarrow> string list \<Rightarrow> (string \<times> json) list \<Rightarrow> (string \<times> json) list \<Rightarrow> chat_request" where
  "executive_summary_request lib items analysis meeting_info =
     section_request
       ''You are an executive briefing writer for Triangle development professionals.''
       (executive_summary_prompt lib (join ''\<newline>'' items) analysis meeting_info)"

definition generate_executive_summary ::
  "pylib \<Rightarrow> world \<Rightarrow> (string \<times> json) list \<Rightarrow> (string \<times> json) list \<Rightarrow> trace
     \<Rightarrow> (exn + string option) \<times> trace" where
  "generate_executive_summary lib w analysis meeting_info tr =
     (let highlights = dict_get_default analysis ''newsletter_highlights'' (JArr [])
      in case highlight_items lib highlights of
           Inl e \<Rightarrow> (Inl e, tr)
         | Inr items \<Rightarrow>
             (let r = request_section w
                        (executive_summary_request lib items analysis meeting_info)
                        ''executive summary'' tr
              in (Inr (fst r), snd r)))"

text \<open>
  \<open>save_newsletter_content\<close>. \<open>section_order\<close> is the list of the source;
  \<open>write_sections\<close> is its \<open>for\<close> loop, \<open>out\<close> being what has been written to the file so
  far. The test \<open>key in sections and sections[key]\<close> is \<open>section_text\<close> being not \<open>None\<close>.
\<close>

definition section_order :: "(string \<times> string) list" where
  "section_order =
     [(''executive_summary'', ''## Executive Summary''),
      (''project_pipeline'', ''## Project Pipeline''),
      (''market_intelligence'', ''## Market Intelligence''),
      (''regulatory_watch'', ''## Regulatory Watch''),
      (''people_politics'', ''## People & Politics'')]"

definition section_text :: "sections \<Rightarrow> string \<Rightarrow> string option" where
  "section_text sections key =
     (case map_of sections key of
        None \<Rightarrow> None
      | Some None \<Rightarrow> None
      | Some (Some s) \<Rightarrow> if s \<noteq> [] then Some s else None)"

fun write_sections :: "sections \<Rightarrow> (string \<times> string) list \<Rightarrow> string \<Rightarrow> string" where
  "write_sections sections [] out = out"
| "write_sections sections ((key, title) # rest) out =
     (case section_text sections key of
        Some s \<Rightarrow>
          write_sections sections rest
            (out @ (title @ ''\<newline>\<newline>'') @ (s @ ''\<newline>\<newline>'') @ ''---\<newline>\<newline>'')
      | None \<Rightarrow> write_sections sections rest out)"

definition newsletter_header :: "pylib \<Rightarrow> (string \<times> json) list \<Rightarrow> string" where
  "newsletter_header lib meeting_info =
     ''# Triangle Development Digest\<newline>\<newline>'' @
     (''## '' @ py_str lib (dict_get meeting_info ''jurisdiction'') @ '' '' @
      py_str lib (dict_get meeting_info ''type'') @ '' - '' @
      py_str lib (dict_get meeting_info ''date'') @ ''\<newline>\<newline>'')"

definition newsletter_footer :: "world \<Rightarrow> string" where
  "newsletter_footer w = ''*Generated by PermitRDU AI on '' @ now_footer_stamp w @ ''*\<newline>''"

definition newsletter_text :: "pylib \<Rightarrow> world \<Rightarrow> sections \<Rightarrow> (string \<times> json) list \<Rightarrow> string" where
  "newsletter_text lib w sections meeting_info =
     write_sections sections section_order (newsletter_header lib meeting_info)
       @ newsletter_footer w"

definition newsletter_file_name :: "string \<Rightarrow> string \<Rightarrow> string" where
  "newsletter_file_name jurisdiction timestamp =
     ''newsletter_'' @ jurisdiction @ ''_'' @ timestamp @ ''.md''"

definition save_newsletter_content ::
  "pylib \<Rightarrow> world \<Rightarrow> sections \<Rightarrow> (string \<times> json) list \<Rightarrow> trace \<Rightarrow> (exn + unit) \<times> trace" where
  "save_newsletter_content lib w sections meeting_info tr =
     (let timestamp = now_file_stamp w
      in case dict_get_default meeting_info ''jurisdiction'' (JStr ''triangle'') of
           JStr j \<Rightarrow>
             (let jurisdiction = str_lower lib j;
                  newsletter_file = newsletter_file_name jurisdiction timestamp
              in case fs_open_w w newsletter_file of
                   Some e \<Rightarrow> (Inl e, tr)
                 | None \<Rightarrow>
                     (Inr (),
                      tr @ [FileWrite newsletter_file
                              (newsletter_text lib w sections meeting_info)]))
         | v \<Rightarrow> (Inl (no_attribute v ''lower''), tr))"

text \<open>
  \<open>generate_newsletter_content\<close>. It returns \<open>None\<close> when the analysis file is not found or
  the API key is not set; any other failure to read the file, and a \<open>data\<close>,
  \<open>meeting_info\<close> or \<open>analysis\<close> that is not a dict, raise. \<open>display_newsletter_content\<close>
  only prints.
\<close>

definition generate_newsletter_content ::
  "pylib \<Rightarrow> world \<Rightarrow> string \<Rightarrow> trace \<Rightarrow> (exn + sections option) \<times> trace" where
  "generate_newsletter_content lib w analysis_file tr =
     (case fs_read_json w analysis_file of
        Inl e \<Rightarrow> if exn_class_of e = FileNotFoundError then (Inr None, tr) else (Inl e, tr)
      | Inr data \<Rightarrow>
     (case json_get_default data ''meeting_info'' (JObj []) of
        Inl e \<Rightarrow> (Inl e, tr)
      | Inr meeting_info_value \<Rightarrow>
     (case json_get_default data ''analysis'' (JObj []) of
        Inl e \<Rightarrow> (Inl e, tr)
      | Inr analysis_value \<Rightarrow>
     (case meeting_info_value of
        JObj meeting_info \<Rightarrow>
          (if (case getenv w ''OPENAI_API_KEY'' of None \<Rightarrow> True | Some k \<Rightarrow> k = [])
           then (Inr None, tr)
           else
     (case analysis_value of
        JObj analysis \<Rightarrow>
          (let (sections1, tr1) =
                 (if truthy (dict_get analysis ''projects'')
                  then (let r = generate_project_pipeline lib w analysis meeting_info tr
                        in ([(''project_pipeline'', fst r)], snd r))
                  else ([], tr));
               market = generate_market_intelligence lib w analysis meeting_info tr1;
               sections2 = sections1 @ [(''market_intelligence'', fst market)];
               regulatory = generate_regulatory_watch lib w analysis meeting_info (snd market);
               sections3 = sections2 @ [(''regulatory_watch'', fst regulatory)];
               (sections4, tr4) =
                 (if truthy (dict_get analysis ''key_people'')
                  then (let r = generate_people_politics lib w analysis meeting_info (snd regulatory)
                        in (sections3 @ [(''people_politics'', fst r)], snd r))
                  else (sections3, snd regulatory))
           in case generate_executive_summary lib w analysis meeting_info tr4 of
                (Inl e, tr5) \<Rightarrow> (Inl e, tr5)
              | (Inr executive_summary, tr5) \<Rightarrow>
                  (let newsletter_sections = sections4 @ [(''executive_summary'', executive_summary)]
                   in case save_newsletter_content lib w newsletter_sections meeting_info tr5 of
                        (Inl e, tr6) \<Rightarrow> (Inl e, tr6)
                      | (Inr u, tr6) \<Rightarrow> (Inr (Some newsletter_sections), tr6)))
      | v \<Rightarrow> (Inl (no_attribute v ''get''), tr)))
      | v \<Rightarrow> (Inl (no_attribute v ''get''), tr)))))"

text \<open>
  For the statements about the saved file: what one entry of \<open>section_order\<close> contributes
  to it, namely the heading, the text and a horizontal rule when the section has a
  non-empty text, and nothing otherwise.
\<close>

definition section_block :: "sections \<Rightarrow> string \<Rightarrow> string \<Rightarrow> string" where
  "section_block sections key title =
     (case section_text sections key of
        Some s \<Rightarrow> title @ ''\<newline>\<newline>'' @ s @ ''\<newline>\<newline>'' @ ''---\<newline>\<newline>''
      | None \<Rightarrow> [])"

text \<open>
  For the statements about the generated mapping: the sections that a run requests, in
  the order of the calls, each with its key, the label of its error text and its request;
  and the mapping that results when the \<open>n\<close>-th event of the run is the first of these
  calls.
\<close>

definition planned_sections ::
  "pylib \<Rightarrow> string list \<Rightarrow> (string \<times> json) list \<Rightarrow> (string \<times> json) list
     \<Rightarrow> (string \<times> string \<times> chat_request) list" where
  "planned_sections lib items analysis meeting_info =
     (if truthy (dict_get analysis ''projects'')
      then [(''project_pipeline'', ''project pipeline'',
             project_pipeline_request lib analysis meeting_info)]
      else [])
     @ [(''market_intelligence'', ''market intelligence'',
         market_intelligence_request lib analysis meeting_info),
        (''regulatory_watch'', ''regulatory watch'',
         regulatory_watch_request lib analysis meeting_info)]
     @ (if truthy (dict_get analysis ''key_people'')
        then [(''people_politics'', ''people & politics'',
               people_politics_request lib analysis meeting_info)]
        else [])
     @ [(''executive_summary'', ''executive summary'',
         executive_summary_request lib items analysis meeting_info)]"

fun generated_sections ::
  "world \<Rightarrow> nat \<Rightarrow> (string \<times> string \<times> chat_request) list \<Rightarrow> sections" where
  "generated_sections w n [] = []"
| "generated_sections w n ((key, label, req) # rest) =
     (key, section_value label (chat w n req)) # generated_sections w (Suc n) rest"


section \<open>Sample inputs\<close>

text \<open>
  Concrete inputs on which the theorems below are instantiated. \<open>sample_lib\<close> stands in
  for the library functions on these inputs only; \<open>sample_world\<close> has a small and an
  oversized media file, a saved analysis and endpoints that answer.
\<close>

definition sample_lib :: pylib where
  "sample_lib =
     \<lparr>py_repr = (\<lambda>v. ''<repr>''),
      json_loads = (\<lambda>s. if s = ''{}'' then Inr (JObj [])
                        else Inl (Exn JSONDecodeError ''Expecting value: line 1 column 1 (char 0)'')),
      json_dumps = (\<lambda>v. ''<json>''),
      str_lower = (\<lambda>s. if s = ''Raleigh'' then ''raleigh'' else s),
      float_format_mb = (\<lambda>n. ''<float>'')\<rparr>"

definition sample_info :: "(string \<times> json) list" where
  "sample_info =
     [(''jurisdiction'', JStr ''Raleigh''), (''date'', JStr ''2025-08-12''),
      (''type'', JStr ''Planning Commission'')]"

definition sample_analysis :: "(string \<times> json) list" where
  "sample_analysis =
     [(''projects'',
         JArr [JObj [(''name'', JStr ''Oak Street Apartments''),
                     (''vote_outcome'', JStr ''approved''), (''vote_details'', JStr ''9-0'')]]),
      (''key_people'', JArr []),
      (''newsletter_highlights'', JArr [JStr ''Oak Street Apartments approved 9-0''])]"

definition sample_data :: json where
  "sample_data = JObj [(''meeting_info'', JObj sample_info), (''analysis'', JObj sample_analysis)]"

definition sample_sections :: sections where
  "sample_sections =
     [(''project_pipeline'', Some []), (''market_intelligence'', Some ''Demand is steady.''),
      (''people_politics'', None), (''executive_summary'', Some ''One project approved.'')]"

definition sample_transcription :: whisper_response where
  "sample_transcription =
     \<lparr>wr_text = ''The rezoning for Oak Street Apartments is approved nine to zero.'',
      wr_duration = Some (Some 10), wr_language = Some (Some ''english''),
      wr_segments = Some (JArr [])\<rparr>"

definition sample_completion :: "string \<Rightarrow> chat_response" where
  "sample_completion content = \<lparr>cr_choices = [Some content], cr_usage = Usage_tokens 100\<rparr>"

definition sample_world :: world where
  "sample_world =
     \<lparr>fs_stat = (\<lambda>p. if p = ''meeting.mp3'' then Size 1048576
                     else if p = ''big.mp3'' then Size 26476544 else Missing),
      fs_open_rb = (\<lambda>p. None),
      fs_read_json = (\<lambda>p. if p = ''analysis.json'' then Inr sample_data
                          else Inl (Exn FileNotFoundError ''[Errno 2] No such file or directory'')),
      fs_open_w = (\<lambda>p. None),
      getenv = (\<lambda>k. if k = ''OPENAI_API_KEY'' then Some ''sk-sample'' else None),
      whisper = (\<lambda>n q. Inr sample_transcription),
      chat = (\<lambda>n q. Inr (sample_completion ''Not JSON: the commission approved one project.'')),
      now_processed_at = ''2025-08-12T14:57:00'',
      now_analyzed_at = ''2025-08-12T14:57:41'',
      now_summary_at = ''2025-08-12T14:57:42'',
      now_file_stamp = ''20250812_150000'',
      now_footer_stamp = ''August 12, 2025 at 03:00 PM''\<rparr>"

text \<open>
  A response text made of 4301 digits: \<open>json.loads\<close> raises a plain \<open>ValueError\<close> on it,
  since the integer literal is over the limit of 4300 digits.
\<close>

definition long_number :: string where
  "long_number = replicate 4301 (CHR ''1'')"

definition digit_limit_lib :: pylib where
  "digit_limit_lib =
     sample_lib\<lparr>json_loads :=
       (\<lambda>s. if s = long_number
            then Inl (Exn ValueError ''Exceeds the limit (4300 digits) for integer string conversion: value has 4301 digits; use sys.set_int_max_str_digits() to increase the limit'')
            else json_loads sample_lib s)\<rparr>"

definition long_number_world :: world where
  "long_number_world = sample_world\<lparr>chat := (\<lambda>n q. Inr (sample_completion long_number))\<rparr>"

text \<open>The sample world with the speech-to-text endpoint down, and with one failing chat call.\<close>

definition whisper_down :: world where
  "whisper_down = sample_world\<lparr>whisper := (\<lambda>n q. Inl (Exn OtherException ''Connection error.''))\<rparr>"

definition second_call_fails :: world where
  "second_call_fails =
     sample_world\<lparr>chat := (\<lambda>n q. if n = 1 then Inl (Exn OtherException ''Rate limit reached'')
                                  else Inr (sample_completion ''Section text.''))\<rparr>"


section \<open>Helper lemmas\<close>

lemma tenths_of_mb_near:
  "2 * \<bar>10 * int n - int (tenths_of_mb n) * 1048576\<bar> \<le> 1048576"
proof -
  define q where "q = (10 * n) div 1048576"
  define r where "r = (10 * n) mod 1048576"
  have split: "10 * n = q * 1048576 + r"
    unfolding q_def r_def by (rule div_mult_mod_eq [symmetric])
  have r: "r < 1048576"
    unfolding r_def by (rule mod_less_divisor) simp
  have "int (10 * n) = int (q * 1048576 + r)"
    using split by (rule arg_cong)
  then have eq: "10 * int n = int q * 1048576 + int r"
    by simp
  have t: "tenths_of_mb n =
     (if 2 * r < 1048576 then q else if 1048576 < 2 * r then q + 1
      else if even q then q else q + 1)"
    unfolding tenths_of_mb_def Let_def q_def r_def ..
  show ?thesis
    using r eq unfolding t by (auto simp: algebra_simps)
qed

lemma show_nat_digit: "n < 10 \<Longrightarrow> show_nat n = [digit_char n]"
  by (simp add: show_nat.simps)

lemma show_nat_two_digits:
  "10 \<le> n \<Longrightarrow> n < 100 \<Longrightarrow> show_nat n = [digit_char (n div 10), digit_char (n mod 10)]"
  by (subst show_nat.simps) (simp add: show_nat_digit)

lemma whisper_calls_append [simp]:
  "whisper_calls (xs @ ys) = whisper_calls xs @ whisper_calls ys"
  by (simp add: whisper_calls_def)

lemma chat_calls_append [simp]:
  "chat_calls (xs @ ys) = chat_calls xs @ chat_calls ys"
  by (simp add: chat_calls_def)

lemma calls_single [simp]:
  "whisper_calls [WhisperCall q] = [q]" "whisper_calls [ChatCall c] = []"
  "whisper_calls [FileWrite f t] = []"
  "chat_calls [WhisperCall q] = []" "chat_calls [ChatCall c] = [c]"
  "chat_calls [FileWrite f t] = []"
  by (simp_all add: whisper_calls_def chat_calls_def)

lemma transcribe_file_cases:
  "transcribe_file w p tr =
     (case fs_open_rb w p of
        Some e \<Rightarrow> (Failed (''OpenAI Whisper error: '' @ str_exn e) None, tr)
      | None \<Rightarrow>
         (case whisper w (length tr) (transcription_request p) of
            Inl e \<Rightarrow> (Failed (''OpenAI Whisper error: '' @ str_exn e) None,
                       tr @ [WhisperCall (transcription_request p)])
          | Inr t \<Rightarrow>
              (Succeeded
                 \<lparr>ft_transcript = wr_text t,
                  ft_duration = (case wr_duration t of None \<Rightarrow> None | Some d \<Rightarrow> d),
                  ft_language = (case wr_language t of None \<Rightarrow> None | Some l \<Rightarrow> l),
                  ft_segments = (case wr_segments t of None \<Rightarrow> JArr [] | Some s \<Rightarrow> s)\<rparr>,
               tr @ [WhisperCall (transcription_request p)])))"
  by (simp add: transcribe_file_def Let_def split: option.splits sum.splits)

lemma transcribe_file_chat_calls:
  "chat_calls (snd (transcribe_file w p tr)) = chat_calls tr"
  by (simp add: transcribe_file_cases split: option.splits sum.splits)

lemma transcribe_meeting_never_raises:
  "\<exists>r. fst (transcribe_meeting lib w p mi tr) = Inr r"
  by (simp add: transcribe_meeting_def try_except_def split: prod.splits sum.splits)

lemma transcribe_meeting_chat_calls:
  "chat_calls (snd (transcribe_meeting lib w p mi tr)) = chat_calls tr"
proof -
  have "chat_calls (snd (transcribe_file w p tr)) = chat_calls tr"
    by (rule transcribe_file_chat_calls)
  then show ?thesis
    by (auto simp: transcribe_meeting_def try_except_def Let_def
             split: prod.splits sum.splits bool.splits transcription_result.splits if_splits)
qed

lemma transcribe_meeting_existing_small:
  assumes "fs_stat w p = Size n" and "n \<le> max_file_size"
  shows "transcribe_meeting lib w p mi tr =
     (case transcribe_file w p tr of
        (Failed e s, tr') \<Rightarrow> (Inr (Failed e s), tr')
      | (Succeeded t, tr') \<Rightarrow>
          (Inr (Succeeded
             \<lparr>mt_transcript = ft_transcript t, mt_meeting_info = mi,
              mt_duration = ft_duration t, mt_language = ft_language t,
              mt_segments = ft_segments t,
              mt_cost_estimate = calculate_cost (ft_duration t),
              mt_processed_at = now_processed_at w,
              mt_enhanced_sections = []\<rparr>), tr'))"
  using assms
  by (simp add: transcribe_meeting_def try_except_def path_exists_def st_size_def
        enhance_transcript_def Let_def
      split: prod.splits transcription_result.splits)

lemma transcribe_meeting_large:
  assumes "fs_stat w p = Size n" and "max_file_size < n"
  shows "transcribe_meeting lib w p mi tr =
     (Inr (Failed (''File too large ('' @ format_mb lib n @ ''MB). Maximum size is 25MB.'')
        (Some ''Please use audio optimization tools to reduce file size or implement file chunking.'')),
      tr)"
  using assms
  by (simp add: transcribe_meeting_def try_except_def path_exists_def st_size_def
        handle_large_file_def)


section \<open>Claims about the transcription service\<close>

text \<open>
  C1. A file that exists and is larger than 26,214,400 bytes is rejected:
  \<open>transcribe_meeting\<close> returns a failure dict (\<open>success\<close> false, null transcript) with
  the formatted size of the file in its error message and the suggestion to reduce the
  file or to chunk it; the trace is unchanged, so the speech-to-text endpoint is not
  called. For a size below \<open>2^53\<close> bytes the formatted size is the size in MiB to one
  decimal, within 0.05 MiB of the true size.
\<close>

theorem C1_large_file_rejected_without_call:
  assumes "fs_stat w file_path = Size n" and "26214400 < n"
  shows "fst (transcribe_meeting lib w file_path meeting_info tr) =
           Inr (Failed (''File too large ('' @ format_mb lib n @ ''MB). Maximum size is 25MB.'')
                  (Some ''Please use audio optimization tools to reduce file size or implement file chunking.''))
       \<and> snd (transcribe_meeting lib w file_path meeting_info tr) = tr
       \<and> whisper_calls (snd (transcribe_meeting lib w file_path meeting_info tr)) = whisper_calls tr
       \<and> (n < 2 ^ 53 \<longrightarrow>
            format_mb lib n =
              show_nat (tenths_of_mb n div 10) @ ''.'' @ show_nat (tenths_of_mb n mod 10)
            \<and> 2 * \<bar>10 * int n - int (tenths_of_mb n) * 1048576\<bar> \<le> 1048576)"
proof -
  have "max_file_size < n"
    using assms(2) by (simp add: max_file_size_def)
  then have "transcribe_meeting lib w file_path meeting_info tr =
     (Inr (Failed (''File too large ('' @ format_mb lib n @ ''MB). Maximum size is 25MB.'')
        (Some ''Please use audio optimization tools to reduce file size or implement file chunking.'')),
      tr)"
    using assms(1) by (rule transcribe_meeting_large [rotated])
  then show ?thesis
    using tenths_of_mb_near [of n] by (simp add: format_mb_def)
qed

theorem C1_witness:
  "fs_stat sample_world ''big.mp3'' = Size 26476544
   \<and> transcribe_meeting sample_lib sample_world ''big.mp3'' sample_info [] =
       (Inr (Failed ''File too large (25.2MB). Maximum size is 25MB.''
          (Some ''Please use audio optimization tools to reduce file size or implement file chunking.'')),
        [])"
proof -
  have stat: "fs_stat sample_world ''big.mp3'' = Size 26476544"
    by (simp add: sample_world_def)
  have size: "(26214400::nat) < 26476544"
    by simp
  have small: "(26476544::nat) < 2 ^ 53"
    by simp
  have mb: "format_mb sample_lib 26476544 = ''25.2''"
    by (simp add: format_mb_def tenths_of_mb_def show_nat_digit show_nat_two_digits digit_char_def)
  show ?thesis
    using C1_large_file_rejected_without_call [OF stat size, of sample_lib sample_info "[]"] small
    by (simp add: mb stat prod_eq_iff)
qed

text \<open>
  C2. \<open>transcribe_meeting\<close> never raises: for every input it returns a result dict. On an
  existing file within the size limit that can be opened, a failing endpoint call gives
  the failure dict with the cause in its error string and a null transcript, and a
  successful call gives \<open>success\<close> true with the text of the transcription.
\<close>

theorem C2_transcribe_meeting_always_returns_a_result:
  "\<exists>r. fst (transcribe_meeting lib w file_path meeting_info tr) = Inr r \<and>
     (fs_stat w file_path = Size n \<and> n \<le> max_file_size \<and> fs_open_rb w file_path = None \<longrightarrow>
        (case whisper w (length tr) (transcription_request file_path) of
           Inl e \<Rightarrow> r = Failed (''OpenAI Whisper error: '' @ str_exn e) None
                     \<and> \<not> success r \<and> transcript_of r = None
         | Inr transcript \<Rightarrow> success r \<and> transcript_of r = Some (wr_text transcript)))"
proof (cases "fs_stat w file_path = Size n \<and> n \<le> max_file_size \<and> fs_open_rb w file_path = None")
  case True
  then show ?thesis
    by (simp add: transcribe_meeting_existing_small transcribe_file_cases split: sum.splits)
next
  case False
  then show ?thesis
    using transcribe_meeting_never_raises [of lib w file_path meeting_info tr] by auto
qed

theorem C2_witness:
  "fst (transcribe_meeting sample_lib whisper_down ''meeting.mp3'' sample_info []) =
     Inr (Failed ''OpenAI Whisper error: Connection error.'' None)"
proof -
  have w: "whisper whisper_down 0 (transcription_request ''meeting.mp3'') =
             Inl (Exn OtherException ''Connection error.'')"
    by (simp add: whisper_down_def)
  have pre: "fs_stat whisper_down ''meeting.mp3'' = Size 1048576 \<and> 1048576 \<le> max_file_size
             \<and> fs_open_rb whisper_down ''meeting.mp3'' = None"
    by (simp add: whisper_down_def sample_world_def max_file_size_def)
  show ?thesis
    using C2_transcribe_meeting_always_returns_a_result
            [of sample_lib whisper_down "''meeting.mp3''" sample_info "[]" 1048576] pre
    by (auto simp: w)
qed

text \<open>
  C8. The enhancement step is the identity on the text and returns no sections, so when
  \<open>transcribe_meeting\<close> succeeds, the transcript it returns is the text the speech-to-text
  endpoint produced in this very call, and the list of enhanced sections is empty.
\<close>

theorem C8_enhancement_is_identity:
  "enhance_transcript lib raw_transcript meeting_info =
     \<lparr>en_text = raw_transcript, en_sections = [], en_error = None\<rparr>
   \<and> (fst (transcribe_meeting lib w file_path meeting_info tr) = Inr (Succeeded d) \<longrightarrow>
        (\<exists>transcript. whisper w (length tr) (transcription_request file_path) = Inr transcript
                      \<and> mt_transcript d = wr_text transcript)
        \<and> mt_enhanced_sections d = [])"
proof -
  have "fst (transcribe_meeting lib w file_path meeting_info tr) = Inr (Succeeded d) \<Longrightarrow>
        (\<exists>transcript. whisper w (length tr) (transcription_request file_path) = Inr transcript
                      \<and> mt_transcript d = wr_text transcript)
        \<and> mt_enhanced_sections d = []"
    by (auto simp: transcribe_meeting_def try_except_def path_exists_def st_size_def
                   handle_large_file_def transcribe_file_cases enhance_transcript_def Let_def
             split: stat_result.splits if_splits option.splits sum.splits)
  then show ?thesis
    by (simp add: enhance_transcript_def)
qed

theorem C8_witness:
  "fst (transcribe_meeting sample_lib sample_world ''meeting.mp3'' sample_info []) =
     Inr (Succeeded
       \<lparr>mt_transcript = wr_text sample_transcription, mt_meeting_info = sample_info,
        mt_duration = Some 10, mt_language = Some ''english'', mt_segments = JArr [],
        mt_cost_estimate = 3 / 50, mt_processed_at = ''2025-08-12T14:57:00'',
        mt_enhanced_sections = []\<rparr>)
   \<and> whisper sample_world 0 (transcription_request ''meeting.mp3'') = Inr sample_transcription"
proof -
  have run: "fst (transcribe_meeting sample_lib sample_world ''meeting.mp3'' sample_info []) =
     Inr (Succeeded
       \<lparr>mt_transcript = wr_text sample_transcription, mt_meeting_info = sample_info,
        mt_duration = Some 10, mt_language = Some ''english'', mt_segments = JArr [],
        mt_cost_estimate = 3 / 50, mt_processed_at = ''2025-08-12T14:57:00'',
        mt_enhanced_sections = []\<rparr>)"
    by (simp add: transcribe_meeting_def try_except_def path_exists_def st_size_def
          transcribe_file_cases enhance_transcript_def Let_def sample_world_def
          sample_transcription_def max_file_size_def calculate_cost_def)
  show ?thesis
    using C8_enhancement_is_identity
            [of sample_lib "wr_text sample_transcription" sample_info sample_world
                "''meeting.mp3''" "[]" _] run
    by (simp add: sample_world_def)
qed


section \<open>Claims about the pipeline\<close>

lemma process_meeting_file_on_failure:
  assumes "fst (transcribe_meeting lib w p mi tr) = Inr r" and "\<not> success r"
  shows "process_meeting_file lib w p mi tr =
           (Inr (Transcript_result r), snd (transcribe_meeting lib w p mi tr))"
  using assms
  by (cases "transcribe_meeting lib w p mi tr"; cases r)
     (simp_all add: process_meeting_file_def)

text \<open>
  When \<open>process_meeting_file\<close> does build the combined dict, the transcription had
  succeeded, so the \<open>transcription_error\<close> entry is null, and the \<open>analysis_error\<close> entry is
  null exactly when the analysis succeeded.
\<close>

lemma process_meeting_file_errors:
  assumes "fst (process_meeting_file lib w p mi tr) = Inr (Combined c)"
  shows "transcription_error (cb_errors c) = None
       \<and> (analysis_error (cb_errors c) = None \<longleftrightarrow> cb_success c)
       \<and> (\<exists>d. fst (transcribe_meeting lib w p mi tr) = Inr (Succeeded d))"
proof -
  obtain r1 tr1 where t: "transcribe_meeting lib w p mi tr = (r1, tr1)"
    by (cases "transcribe_meeting lib w p mi tr")
  show ?thesis
  proof (cases r1)
    case (Inl e)
    with t assms show ?thesis
      by (simp add: process_meeting_file_def)
  next
    case (Inr r)
    show ?thesis
    proof (cases r)
      case (Failed e s)
      with t Inr assms show ?thesis
        by (simp add: process_meeting_file_def)
    next
      case (Succeeded d)
      obtain r2 tr2 where a: "analyze_transcript lib w (mt_transcript d) mi tr1 = (r2, tr2)"
        by (cases "analyze_transcript lib w (mt_transcript d) mi tr1")
      show ?thesis
      proof (cases r2)
        case (Inl e)
        with t Inr Succeeded a assms show ?thesis
          by (simp add: process_meeting_file_def)
      next
        case (Inr res)
        with t \<open>r1 = Inr r\<close> Succeeded a assms show ?thesis
          by (cases res) (auto simp: process_meeting_file_def)
      qed
    qed
  qed
qed

text \<open>
  C9. The claim: every run of \<open>process_meeting_file\<close> returns a dict with an \<open>errors\<close>
  mapping whose \<open>transcription_error\<close> entry is not null when the transcription failed.
  The code, on a file that does not exist: it returns the failure dict of
  \<open>transcribe_meeting\<close> as it is, which has no \<open>errors\<close> key.
\<close>

theorem C9_no_errors_mapping_when_transcription_fails:
  "fst (process_meeting_file sample_lib sample_world ''missing.mp3'' sample_info []) =
     Inr (Transcript_result (Failed ''File not found: missing.mp3'' None))
   \<and> pipeline_errors (Transcript_result (Failed ''File not found: missing.mp3'' None)) = None"
  by (simp add: process_meeting_file_def transcribe_meeting_def try_except_def path_exists_def
        sample_world_def)

text \<open>
  C10. When the transcription reports failure, \<open>process_meeting_file\<close> returns the failure
  dict of \<open>transcribe_meeting\<close> itself (\<open>success\<close> false, an error string, a null
  transcript), and the run adds no call to the chat endpoint: the analysis is not invoked.
\<close>

theorem C10_transcription_failure_returned_unanalysed:
  assumes "fst (transcribe_meeting lib w file_path meeting_info tr) = Inr r"
      and "\<not> success r"
  shows "fst (process_meeting_file lib w file_path meeting_info tr) = Inr (Transcript_result r)
       \<and> chat_calls (snd (process_meeting_file lib w file_path meeting_info tr)) = chat_calls tr
       \<and> transcript_of r = None \<and> error_of r \<noteq> None"
proof -
  have "process_meeting_file lib w file_path meeting_info tr =
          (Inr (Transcript_result r), snd (transcribe_meeting lib w file_path meeting_info tr))"
    using assms by (rule process_meeting_file_on_failure)
  moreover have "transcript_of r = None \<and> error_of r \<noteq> None"
    using assms(2) by (cases r) simp_all
  ultimately show ?thesis
    by (simp add: transcribe_meeting_chat_calls)
qed

theorem C10_witness:
  "fst (process_meeting_file sample_lib whisper_down ''meeting.mp3'' sample_info []) =
     Inr (Transcript_result (Failed ''OpenAI Whisper error: Connection error.'' None))
   \<and> chat_calls (snd (process_meeting_file sample_lib whisper_down ''meeting.mp3'' sample_info [])) = []"
proof -
  have t: "fst (transcribe_meeting sample_lib whisper_down ''meeting.mp3'' sample_info []) =
             Inr (Failed ''OpenAI Whisper error: Connection error.'' None)"
    by (simp add: transcribe_meeting_def try_except_def path_exists_def st_size_def
          transcribe_file_cases whisper_down_def sample_world_def max_file_size_def)
  have f: "\<not> success (Failed ''OpenAI Whisper error: Connection error.'' None
                        :: meeting_transcript transcription_result)"
    by simp
  show ?thesis
    using C10_transcription_failure_returned_unanalysed [OF t f]
    by (simp add: chat_calls_def)
qed


section \<open>Claims about the extraction step\<close>

lemma analyze_transcript_trace:
  "snd (analyze_transcript lib w transcript mi tr) =
     tr @ [ChatCall (analysis_request (service_build_analysis_prompt lib transcript mi))]"
  by (simp add: analyze_transcript_def try_except_def Let_def
      split: sum.splits option.splits prod.splits)

lemma analyze_transcript_on_text:
  assumes "chat w (length tr) (analysis_request (service_build_analysis_prompt lib transcript mi))
             = Inr response"
      and "cr_choices response = Some analysis_text # others"
  shows "fst (analyze_transcript lib w transcript mi tr) =
           (case parse_analysis lib analysis_text of
              Inl e \<Rightarrow> Inr (Analysis_failed (''Analysis failed: '' @ str_exn e))
            | Inr analysis_data \<Rightarrow>
                (case token_usage response of
                   Inl e \<Rightarrow> Inr (Analysis_failed (''Analysis failed: '' @ str_exn e))
                 | Inr tokens \<Rightarrow>
                     Inr (Analysis_ok
                       \<lparr>an_analysis = analysis_data, an_meeting_info = mi,
                        an_analyzed_at = now_analyzed_at w, an_token_usage = tokens\<rparr>)))"
  using assms
  by (simp add: analyze_transcript_def try_except_def Let_def first_content_def
      split: sum.splits)

text \<open>
  What does hold of the parse step: when \<open>json.loads\<close> returns a value, the analysis is
  that value; when it raises \<open>JSONDecodeError\<close>, the analysis is the dict whose only key
  \<open>raw_analysis\<close> holds the whole response text; in both cases the call reports success,
  provided the \<open>usage\<close> of the response can be read. When \<open>json.loads\<close> raises anything
  else, the call reports failure.
\<close>

lemma analyze_transcript_parse_outcomes:
  assumes "chat w (length tr) (analysis_request (service_build_analysis_prompt lib transcript mi))
             = Inr response"
      and "cr_choices response = Some analysis_text # others"
      and "cr_usage response \<noteq> Usage_null"
  shows "json_loads lib analysis_text = Inr v \<Longrightarrow>
           \<exists>d. fst (analyze_transcript lib w transcript mi tr) = Inr (Analysis_ok d)
               \<and> an_analysis d = v"
    and "json_loads lib analysis_text = Inl e \<Longrightarrow> exn_class_of e = JSONDecodeError \<Longrightarrow>
           \<exists>d. fst (analyze_transcript lib w transcript mi tr) = Inr (Analysis_ok d)
               \<and> an_analysis d = JObj [(''raw_analysis'', JStr analysis_text)]"
    and "json_loads lib analysis_text = Inl e \<Longrightarrow> exn_class_of e \<noteq> JSONDecodeError \<Longrightarrow>
           fst (analyze_transcript lib w transcript mi tr) =
             Inr (Analysis_failed (''Analysis failed: '' @ str_exn e))"
  using assms(3)
  by (cases "cr_usage response";
      simp add: analyze_transcript_on_text [OF assms(1,2)] parse_analysis_def token_usage_def
        raw_analysis_def)+

lemma script_prompt_keeps_long_transcript:
  assumes "12000 < length transcript"
  shows "script_build_analysis_prompt lib transcript mi \<noteq>
           script_build_analysis_prompt lib (take 12000 transcript) mi"
proof
  assume "script_build_analysis_prompt lib transcript mi =
            script_build_analysis_prompt lib (take 12000 transcript) mi"
  then have "script_prompt_head lib mi @ transcript @ script_prompt_tail =
             script_prompt_head lib mi @ take 12000 transcript @ script_prompt_tail"
    unfolding script_build_analysis_prompt_def .
  then have "transcript @ script_prompt_tail = take 12000 transcript @ script_prompt_tail"
    by (rule same_append_eq [THEN iffD1])
  then have "transcript = take 12000 transcript"
    by (rule append_same_eq [THEN iffD1])
  then have "length transcript = length (take 12000 transcript)"
    by (rule arg_cong)
  moreover have "length (take 12000 transcript) \<le> 12000"
    by simp
  ultimately show False
    using assms by linarith
qed

text \<open>
  C3. The claim: for every response text, a failed parse gives the \<open>raw_analysis\<close> fallback
  with \<open>success\<close> true, and a parse failure alone is never reported as an error. The code,
  on a response text of 4301 digits: \<open>json.loads\<close> fails with a plain \<open>ValueError\<close> (the
  integer literal is over the digit limit), which the handler for \<open>JSONDecodeError\<close> does
  not catch; the outer handler of \<open>analyze_transcript\<close> catches it, and the call returns
  the failure dict, \<open>success\<close> false and a null analysis, instead of the fallback.
\<close>

theorem C3_parse_failure_reported_as_error:
  "json_loads digit_limit_lib long_number =
     Inl (Exn ValueError ''Exceeds the limit (4300 digits) for integer string conversion: value has 4301 digits; use sys.set_int_max_str_digits() to increase the limit'')
   \<and> chat long_number_world 0
         (analysis_request
            (service_build_analysis_prompt digit_limit_lib ''Item one was approved.'' sample_info)) =
       Inr \<lparr>cr_choices = [Some long_number], cr_usage = Usage_tokens 100\<rparr>
   \<and> fst (analyze_transcript digit_limit_lib long_number_world ''Item one was approved.''
            sample_info []) =
       Inr (Analysis_failed ''Analysis failed: Exceeds the limit (4300 digits) for integer string conversion: value has 4301 digits; use sys.set_int_max_str_digits() to increase the limit'')
   \<and> analysis_success (Analysis_failed ''Analysis failed: Exceeds the limit (4300 digits) for integer string conversion: value has 4301 digits; use sys.set_int_max_str_digits() to increase the limit'') = False
   \<and> analysis_of (Analysis_failed ''Analysis failed: Exceeds the limit (4300 digits) for integer string conversion: value has 4301 digits; use sys.set_int_max_str_digits() to increase the limit'') = None"
proof -
  let ?req = "analysis_request
                (service_build_analysis_prompt digit_limit_lib ''Item one was approved.'' sample_info)"
  have loads: "json_loads digit_limit_lib long_number =
     Inl (Exn ValueError ''Exceeds the limit (4300 digits) for integer string conversion: value has 4301 digits; use sys.set_int_max_str_digits() to increase the limit'')"
    by (simp add: digit_limit_lib_def)
  have c: "chat long_number_world (length ([]::trace)) ?req =
             Inr \<lparr>cr_choices = [Some long_number], cr_usage = Usage_tokens 100\<rparr>"
    by (simp add: long_number_world_def sample_completion_def)
  have ch: "cr_choices \<lparr>cr_choices = [Some long_number], cr_usage = Usage_tokens 100\<rparr> =
              Some long_number # []"
    by simp
  have "fst (analyze_transcript digit_limit_lib long_number_world ''Item one was approved.''
               sample_info []) =
        Inr (Analysis_failed ''Analysis failed: Exceeds the limit (4300 digits) for integer string conversion: value has 4301 digits; use sys.set_int_max_str_digits() to increase the limit'')"
    unfolding analyze_transcript_on_text [OF c ch] parse_analysis_def loads by simp
  then show ?thesis
    using loads c by simp
qed

text \<open>
  C4, as amended. \<open>MeetingAnalysisService._build_analysis_prompt\<close> embeds the first 12000
  characters of the transcript and nothing after them: the prompt is the head, the slice
  and the tail, it is the same for a transcript and for its first 12000 characters, and
  this is the prompt of the one request that \<open>analyze_transcript\<close> issues. The standalone
  script's \<open>build_analysis_prompt\<close> embeds the whole transcript.
\<close>

theorem C4_service_prompt_truncates_script_prompt_does_not:
  "service_build_analysis_prompt lib transcript meeting_info =
     service_prompt_head lib meeting_info @ take 12000 transcript @ service_prompt_tail
   \<and> service_build_analysis_prompt lib transcript meeting_info =
       service_build_analysis_prompt lib (take 12000 transcript) meeting_info
   \<and> length (service_build_analysis_prompt lib transcript meeting_info)
       \<le> length (service_prompt_head lib meeting_info) + 12000 + length service_prompt_tail
   \<and> chat_calls (snd (analyze_transcript lib w transcript meeting_info tr)) =
       chat_calls tr @
         [analysis_request (service_build_analysis_prompt lib (take 12000 transcript) meeting_info)]
   \<and> script_build_analysis_prompt lib transcript meeting_info =
       script_prompt_head lib meeting_info @ transcript @ script_prompt_tail"
proof -
  have same: "service_build_analysis_prompt lib transcript meeting_info =
                service_build_analysis_prompt lib (take 12000 transcript) meeting_info"
    by (simp add: service_build_analysis_prompt_def)
  have "chat_calls (snd (analyze_transcript lib w transcript meeting_info tr)) =
          chat_calls tr @
            [analysis_request (service_build_analysis_prompt lib transcript meeting_info)]"
    by (simp add: analyze_transcript_trace)
  then show ?thesis
    using same
    by (simp add: service_build_analysis_prompt_def script_build_analysis_prompt_def)
qed

text \<open>
  C4 as stated fails on the script: for a transcript of 12001 characters its prompt holds
  all 12001, and differs from the prompt of the first 12000.
\<close>

theorem C4_script_prompt_not_truncated:
  "script_build_analysis_prompt sample_lib (replicate 12001 (CHR ''a'')) sample_info =
     script_prompt_head sample_lib sample_info @ replicate 12001 (CHR ''a'') @ script_prompt_tail
   \<and> script_build_analysis_prompt sample_lib (replicate 12001 (CHR ''a'')) sample_info \<noteq>
       script_build_analysis_prompt sample_lib (take 12000 (replicate 12001 (CHR ''a''))) sample_info"
proof -
  have len: "(12000::nat) < length (replicate 12001 (CHR ''a''))"
    by (simp only: length_replicate)
  show ?thesis
    using script_prompt_keeps_long_transcript [OF len, of sample_lib sample_info]
    by (simp only: script_build_analysis_prompt_def simp_thms)
qed


section \<open>Claims about the newsletter generator\<close>

lemma write_sections_blocks:
  "write_sections sections order out =
     out @ concat (map (\<lambda>(key, title). section_block sections key title) order)"
proof (induction order arbitrary: out)
  case Nil
  show ?case by simp
next
  case (Cons entry rest)
  obtain key title where entry: "entry = (key, title)"
    by (cases entry)
  show ?case
    unfolding entry
    by (cases "section_text sections key") (simp_all add: Cons.IH section_block_def)
qed

lemma newsletter_text_blocks:
  "newsletter_text lib w sections mi =
     newsletter_header lib mi
     @ section_block sections ''executive_summary'' ''## Executive Summary''
     @ section_block sections ''project_pipeline'' ''## Project Pipeline''
     @ section_block sections ''market_intelligence'' ''## Market Intelligence''
     @ section_block sections ''regulatory_watch'' ''## Regulatory Watch''
     @ section_block sections ''people_politics'' ''## People & Politics''
     @ newsletter_footer w"
  unfolding newsletter_text_def write_sections_blocks section_order_def by simp

lemma save_newsletter_content_writes:
  assumes "dict_get_default mi ''jurisdiction'' (JStr ''triangle'') = JStr j"
      and "fs_open_w w (newsletter_file_name (str_lower lib j) (now_file_stamp w)) = None"
  shows "save_newsletter_content lib w sections mi tr =
           (Inr (), tr @ [FileWrite (newsletter_file_name (str_lower lib j) (now_file_stamp w))
                            (newsletter_text lib w sections mi)])"
  using assms by (simp add: save_newsletter_content_def Let_def)

lemma save_newsletter_content_trace:
  assumes "fst (save_newsletter_content lib w sections mi tr) = Inr ()"
  shows "\<exists>name. snd (save_newsletter_content lib w sections mi tr) =
           tr @ [FileWrite name (newsletter_text lib w sections mi)]"
  using assms
  by (auto simp: save_newsletter_content_def Let_def split: json.splits option.splits)

lemma generated_sections_keys:
  "map fst (generated_sections w n planned) = map fst planned"
  by (induction w n planned rule: generated_sections.induct) simp_all

lemma generated_sections_nth:
  assumes "i < length planned" and "planned ! i = (key, label, req)"
  shows "generated_sections w n planned ! i = (key, section_value label (chat w (n + i) req))"
  using assms
proof (induction w n planned arbitrary: i rule: generated_sections.induct)
  case (1 w n)
  then show ?case by simp
next
  case (2 w n k l r rest)
  then show ?case by (cases i) simp_all
qed

lemma generated_sections_lookup:
  assumes "distinct (map fst planned)"
      and "i < length planned" and "planned ! i = (key, label, req)"
  shows "map_of (generated_sections w n planned) key =
           Some (section_value label (chat w (n + i) req))"
proof -
  have d: "distinct (map fst (generated_sections w n planned))"
    using assms(1) by (simp add: generated_sections_keys)
  have len: "i < length (generated_sections w n planned)"
    using assms(2) generated_sections_keys [of w n planned]
    by (metis length_map)
  have "generated_sections w n planned ! i \<in> set (generated_sections w n planned)"
    using len by (rule nth_mem)
  then have "(key, section_value label (chat w (n + i) req)) \<in> set (generated_sections w n planned)"
    using generated_sections_nth [OF assms(2,3)] by simp
  with d show ?thesis
    by (rule map_of_is_SomeI)
qed

lemma planned_sections_distinct:
  "distinct (map fst (planned_sections lib items analysis mi))"
  by (simp add: planned_sections_def)

lemma planned_sections_keys:
  "set (map fst (planned_sections lib items analysis mi)) =
     {''market_intelligence'', ''regulatory_watch'', ''executive_summary''}
     \<union> (if truthy (dict_get analysis ''projects'') then {''project_pipeline''} else {})
     \<union> (if truthy (dict_get analysis ''key_people'') then {''people_politics''} else {})"
  by (auto simp: planned_sections_def)

text \<open>
  What a run of \<open>generate_newsletter_content\<close> returns and does, once the analysis file
  holds a dict with dicts for the meeting and the analysis, the API key is set, the
  highlights can be iterated, the jurisdiction is a string and the newsletter file can be
  opened: the mapping of the planned sections, after one chat call for each of them and
  the write of the file.
\<close>

lemma generate_newsletter_content_run:
  assumes "fs_read_json w analysis_file = Inr (JObj data)"
      and "dict_get_default data ''meeting_info'' (JObj []) = JObj mi"
      and "dict_get_default data ''analysis'' (JObj []) = JObj analysis"
      and "getenv w ''OPENAI_API_KEY'' = Some api_key" and "api_key \<noteq> []"
      and "highlight_items lib (dict_get_default analysis ''newsletter_highlights'' (JArr []))
             = Inr items"
      and "dict_get_default mi ''jurisdiction'' (JStr ''triangle'') = JStr j"
      and "fs_open_w w (newsletter_file_name (str_lower lib j) (now_file_stamp w)) = None"
  shows "generate_newsletter_content lib w analysis_file tr =
           (Inr (Some (generated_sections w (length tr) (planned_sections lib items analysis mi))),
            tr @ map (\<lambda>p. ChatCall (snd (snd p))) (planned_sections lib items analysis mi)
               @ [FileWrite (newsletter_file_name (str_lower lib j) (now_file_stamp w))
                    (newsletter_text lib w
                       (generated_sections w (length tr) (planned_sections lib items analysis mi))
                       mi)])"
  using assms
  by (simp add: generate_newsletter_content_def planned_sections_def
        generate_project_pipeline_def generate_market_intelligence_def
        generate_regulatory_watch_def generate_people_politics_def
        generate_executive_summary_def request_section_def Let_def
        save_newsletter_content_writes)

lemma truthy_sequence:
  assumes "dict_get_default d k (JArr []) = JArr xs"
  shows "truthy (dict_get d k) \<longleftrightarrow> xs \<noteq> []"
  using assms by (auto simp: dict_get_def dict_get_default_def split: option.splits)

lemma key_in_sections:
  "map_of (secs :: sections) k \<noteq> None \<longleftrightarrow> k \<in> set (map fst secs)"
  by (simp add: map_of_eq_None_iff)

text \<open>
  C5. On a readable analysis file whose record has sequences (or nothing) for
  \<open>projects\<close>, \<open>key_people\<close> and \<open>newsletter_highlights\<close>, with the API key set and the
  newsletter file writable (a file that cannot be opened makes the function raise after
  the sections have been requested), \<open>generate_newsletter_content\<close> returns a mapping
  with these keys, in this order: \<open>project_pipeline\<close> exactly when the projects are not
  empty, \<open>market_intelligence\<close>, \<open>regulatory_watch\<close>, \<open>people_politics\<close> exactly when the
  key people are not empty, and \<open>executive_summary\<close>. Each of these sections is produced
  by a call of its own to the chat endpoint, in that order: its value is the content of
  the first choice of the answer, or the error text when the call fails or the answer has
  no choice; and the run issues exactly these calls.
\<close>

theorem C5_sections_gated_by_data:
  assumes "fs_read_json w analysis_file = Inr (JObj data)"
      and "dict_get_default data ''meeting_info'' (JObj []) = JObj meeting_info"
      and "dict_get_default data ''analysis'' (JObj []) = JObj analysis"
      and "getenv w ''OPENAI_API_KEY'' = Some api_key" and "api_key \<noteq> []"
      and "dict_get_default analysis ''projects'' (JArr []) = JArr projects"
      and "dict_get_default analysis ''key_people'' (JArr []) = JArr key_people"
      and "dict_get_default analysis ''newsletter_highlights'' (JArr []) = JArr highlights"
      and "dict_get_default meeting_info ''jurisdiction'' (JStr ''triangle'') = JStr j"
      and "fs_open_w w (newsletter_file_name (str_lower lib j) (now_file_stamp w)) = None"
      and "planned =
             (if projects \<noteq> []
              then [(''project_pipeline'', ''project pipeline'',
                     project_pipeline_request lib analysis meeting_info)]
              else [])
             @ [(''market_intelligence'', ''market intelligence'',
                 market_intelligence_request lib analysis meeting_info),
                (''regulatory_watch'', ''regulatory watch'',
                 regulatory_watch_request lib analysis meeting_info)]
             @ (if key_people \<noteq> []
                then [(''people_politics'', ''people & politics'',
                       people_politics_request lib analysis meeting_info)]
                else [])
             @ [(''executive_summary'', ''executive summary'',
                 executive_summary_request lib
                   (map (\<lambda>highlight. bullet @ '' '' @ py_str lib highlight) highlights)
                   analysis meeting_info)]"
  shows "\<exists>secs. fst (generate_newsletter_content lib w analysis_file tr) = Inr (Some secs)
           \<and> (map_of secs ''project_pipeline'' \<noteq> None \<longleftrightarrow> projects \<noteq> [])
           \<and> (map_of secs ''people_politics'' \<noteq> None \<longleftrightarrow> key_people \<noteq> [])
           \<and> map_of secs ''executive_summary'' \<noteq> None
           \<and> map_of secs ''market_intelligence'' \<noteq> None
           \<and> map_of secs ''regulatory_watch'' \<noteq> None
           \<and> map fst secs = map fst planned
           \<and> (\<forall>i < length planned.
                 case planned ! i of
                   (key, label, req) \<Rightarrow>
                     (case chat w (length tr + i) req of
                        Inl e \<Rightarrow>
                          map_of secs key =
                            Some (Some (''Error generating '' @ label @ '' content: '' @ str_exn e))
                      | Inr response \<Rightarrow>
                          (case cr_choices response of
                             [] \<Rightarrow>
                               map_of secs key =
                                 Some (Some (''Error generating '' @ label
                                             @ '' content: list index out of range''))
                           | content # others \<Rightarrow> map_of secs key = Some content)))
           \<and> chat_calls (snd (generate_newsletter_content lib w analysis_file tr)) =
               chat_calls tr @ map (\<lambda>p. snd (snd p)) planned"
proof -
  define items where
    "items = map (\<lambda>highlight. bullet @ '' '' @ py_str lib highlight) highlights"
  have planned: "planned = planned_sections lib items analysis meeting_info"
    unfolding assms(11) planned_sections_def items_def
      truthy_sequence [OF assms(6)] truthy_sequence [OF assms(7)] ..
  define secs where "secs = generated_sections w (length tr) planned"
  have hl: "highlight_items lib (dict_get_default analysis ''newsletter_highlights'' (JArr []))
              = Inr items"
    unfolding assms(8) items_def by simp
  have run: "generate_newsletter_content lib w analysis_file tr =
               (Inr (Some secs),
                tr @ map (\<lambda>p. ChatCall (snd (snd p))) planned
                   @ [FileWrite (newsletter_file_name (str_lower lib j) (now_file_stamp w))
                        (newsletter_text lib w secs meeting_info)])"
    unfolding secs_def planned
    by (rule generate_newsletter_content_run [OF assms(1-5) hl assms(9,10)])
  have distinct: "distinct (map fst planned)"
    unfolding planned by (rule planned_sections_distinct)
  have order: "map fst secs = map fst planned"
    unfolding secs_def by (rule generated_sections_keys)
  have keys: "set (map fst secs) =
     {''market_intelligence'', ''regulatory_watch'', ''executive_summary''}
     \<union> (if projects \<noteq> [] then {''project_pipeline''} else {})
     \<union> (if key_people \<noteq> [] then {''people_politics''} else {})"
    unfolding order unfolding planned planned_sections_keys
      truthy_sequence [OF assms(6)] truthy_sequence [OF assms(7)] ..
  have gate1: "(map_of secs ''project_pipeline'' \<noteq> None \<longleftrightarrow> projects \<noteq> [])"
    unfolding key_in_sections keys by simp
  have gate2: "(map_of secs ''people_politics'' \<noteq> None \<longleftrightarrow> key_people \<noteq> [])"
    unfolding key_in_sections keys by simp
  have always: "map_of secs ''executive_summary'' \<noteq> None"
    "map_of secs ''market_intelligence'' \<noteq> None" "map_of secs ''regulatory_watch'' \<noteq> None"
    unfolding key_in_sections keys by simp_all
  have each_value: "\<forall>i < length planned.
                 case planned ! i of
                   (key, label, req) \<Rightarrow>
                     (case chat w (length tr + i) req of
                        Inl e \<Rightarrow>
                          map_of secs key =
                            Some (Some (''Error generating '' @ label @ '' content: '' @ str_exn e))
                      | Inr response \<Rightarrow>
                          (case cr_choices response of
                             [] \<Rightarrow>
                               map_of secs key =
                                 Some (Some (''Error generating '' @ label
                                             @ '' content: list index out of range''))
                           | content # others \<Rightarrow> map_of secs key = Some content))"
  proof (intro allI impI)
    fix i assume i: "i < length planned"
    obtain key label req where p: "planned ! i = (key, label, req)"
      by (cases "planned ! i")
    have "map_of secs key = Some (section_value label (chat w (length tr + i) req))"
      unfolding secs_def using distinct i p by (rule generated_sections_lookup)
    then show "case planned ! i of
                 (key, label, req) \<Rightarrow>
                   (case chat w (length tr + i) req of
                      Inl e \<Rightarrow>
                        map_of secs key =
                          Some (Some (''Error generating '' @ label @ '' content: '' @ str_exn e))
                    | Inr response \<Rightarrow>
                        (case cr_choices response of
                           [] \<Rightarrow>
                             map_of secs key =
                               Some (Some (''Error generating '' @ label
                                           @ '' content: list index out of range''))
                         | content # others \<Rightarrow> map_of secs key = Some content))"
      unfolding p
      by (auto simp: section_value_def error_text_def first_content_def
          split: sum.splits list.splits)
  qed
  have calls: "chat_calls (snd (generate_newsletter_content lib w analysis_file tr)) =
                 chat_calls tr @ map (\<lambda>p. snd (snd p)) planned"
    unfolding run by (simp add: chat_calls_def comp_def)
  show ?thesis
    using run gate1 gate2 always order each_value calls
    by (intro exI [of _ secs]) simp
qed

lemma sample_run_facts:
  "fs_read_json sample_world ''analysis.json'' =
     Inr (JObj [(''meeting_info'', JObj sample_info), (''analysis'', JObj sample_analysis)])"
  "dict_get_default [(''meeting_info'', JObj sample_info), (''analysis'', JObj sample_analysis)]
     ''meeting_info'' (JObj []) = JObj sample_info"
  "dict_get_default [(''meeting_info'', JObj sample_info), (''analysis'', JObj sample_analysis)]
     ''analysis'' (JObj []) = JObj sample_analysis"
  "getenv sample_world ''OPENAI_API_KEY'' = Some ''sk-sample''"
  "dict_get_default sample_analysis ''projects'' (JArr []) =
     JArr [JObj [(''name'', JStr ''Oak Street Apartments''),
                 (''vote_outcome'', JStr ''approved''), (''vote_details'', JStr ''9-0'')]]"
  "dict_get_default sample_analysis ''key_people'' (JArr []) = JArr []"
  "dict_get_default sample_analysis ''newsletter_highlights'' (JArr []) =
     JArr [JStr ''Oak Street Apartments approved 9-0'']"
  "dict_get_default sample_info ''jurisdiction'' (JStr ''triangle'') = JStr ''Raleigh''"
  "fs_open_w sample_world (newsletter_file_name (str_lower sample_lib ''Raleigh'')
     (now_file_stamp sample_world)) = None"
  by (simp_all add: sample_world_def sample_data_def sample_analysis_def sample_info_def
        dict_get_default_def)

theorem C5_witness:
  "\<exists>secs. fst (generate_newsletter_content sample_lib sample_world ''analysis.json'' [])
             = Inr (Some secs)
         \<and> map fst secs =
             [''project_pipeline'', ''market_intelligence'', ''regulatory_watch'',
              ''executive_summary'']
         \<and> map_of secs ''project_pipeline'' =
             Some (Some ''Not JSON: the commission approved one project.'')
         \<and> map_of secs ''market_intelligence'' =
             Some (Some ''Not JSON: the commission approved one project.'')
         \<and> map_of secs ''regulatory_watch'' =
             Some (Some ''Not JSON: the commission approved one project.'')
         \<and> map_of secs ''executive_summary'' =
             Some (Some ''Not JSON: the commission approved one project.'')
         \<and> map_of secs ''people_politics'' = None
         \<and> length (chat_calls
               (snd (generate_newsletter_content sample_lib sample_world ''analysis.json'' [])))
             = 4"
proof -
  let ?planned =
    "[(''project_pipeline'', ''project pipeline'',
       project_pipeline_request sample_lib sample_analysis sample_info),
      (''market_intelligence'', ''market intelligence'',
       market_intelligence_request sample_lib sample_analysis sample_info),
      (''regulatory_watch'', ''regulatory watch'',
       regulatory_watch_request sample_lib sample_analysis sample_info),
      (''executive_summary'', ''executive summary'',
       executive_summary_request sample_lib
         (map (\<lambda>highlight. bullet @ '' '' @ py_str sample_lib highlight)
            [JStr ''Oak Street Apartments approved 9-0''])
         sample_analysis sample_info)]"
  have key: "''sk-sample'' \<noteq> ([]::string)"
    by simp
  have planned: "?planned =
     (if [JObj [(''name'', JStr ''Oak Street Apartments''),
                (''vote_outcome'', JStr ''approved''), (''vote_details'', JStr ''9-0'')]] \<noteq> []
      then [(''project_pipeline'', ''project pipeline'',
             project_pipeline_request sample_lib sample_analysis sample_info)]
      else [])
     @ [(''market_intelligence'', ''market intelligence'',
         market_intelligence_request sample_lib sample_analysis sample_info),
        (''regulatory_watch'', ''regulatory watch'',
         regulatory_watch_request sample_lib sample_analysis sample_info)]
     @ (if ([]::json list) \<noteq> []
        then [(''people_politics'', ''people & politics'',
               people_politics_request sample_lib sample_analysis sample_info)]
        else [])
     @ [(''executive_summary'', ''executive summary'',
         executive_summary_request sample_lib
           (map (\<lambda>highlight. bullet @ '' '' @ py_str sample_lib highlight)
              [JStr ''Oak Street Apartments approved 9-0''])
           sample_analysis sample_info)]"
    by simp
  have answers: "\<And>n q. chat sample_world n q =
      Inr \<lparr>cr_choices = [Some ''Not JSON: the commission approved one project.''],
           cr_usage = Usage_tokens 100\<rparr>"
    by (simp add: sample_world_def sample_completion_def)
  obtain secs where secs:
    "fst (generate_newsletter_content sample_lib sample_world ''analysis.json'' [])
       = Inr (Some secs)"
    "map_of secs ''people_politics'' \<noteq> None \<longleftrightarrow> ([]::json list) \<noteq> []"
    "map fst secs = map fst ?planned"
    "\<forall>i < length ?planned.
       case ?planned ! i of
         (key, label, req) \<Rightarrow>
           (case chat sample_world (length ([]::trace) + i) req of
              Inl e \<Rightarrow>
                map_of secs key =
                  Some (Some (''Error generating '' @ label @ '' content: '' @ str_exn e))
            | Inr response \<Rightarrow>
                (case cr_choices response of
                   [] \<Rightarrow>
                     map_of secs key =
                       Some (Some (''Error generating '' @ label
                                   @ '' content: list index out of range''))
                 | content # others \<Rightarrow> map_of secs key = Some content))"
    "chat_calls (snd (generate_newsletter_content sample_lib sample_world ''analysis.json'' []))
       = chat_calls [] @ map (\<lambda>p. snd (snd p)) ?planned"
    using C5_sections_gated_by_data
            [OF sample_run_facts(1-4) key sample_run_facts(5-9) planned, of "[]"]
    by blast
  have "map_of secs ''project_pipeline'' =
          Some (Some ''Not JSON: the commission approved one project.'')"
    using secs(4) [rule_format, of 0] by (simp add: answers)
  moreover have "map_of secs ''market_intelligence'' =
          Some (Some ''Not JSON: the commission approved one project.'')"
    using secs(4) [rule_format, of 1] by (simp add: answers)
  moreover have "map_of secs ''regulatory_watch'' =
          Some (Some ''Not JSON: the commission approved one project.'')"
    using secs(4) [rule_format, of 2] by (simp add: answers)
  moreover have "map_of secs ''executive_summary'' =
          Some (Some ''Not JSON: the commission approved one project.'')"
    using secs(4) [rule_format, of 3] by (simp add: answers)
  moreover have "map fst secs =
      [''project_pipeline'', ''market_intelligence'', ''regulatory_watch'', ''executive_summary'']"
    unfolding secs(3) by simp
  moreover have "map_of secs ''people_politics'' = None"
    using secs(2) by simp
  moreover have "length (chat_calls
      (snd (generate_newsletter_content sample_lib sample_world ''analysis.json'' []))) = 4"
    unfolding secs(5) by (simp add: chat_calls_def)
  ultimately show ?thesis
    using secs(1) by (intro exI [of _ secs]) simp
qed

text \<open>
  C7. Take a run on a readable analysis file (a dict with dicts for the meeting and the
  analysis, highlights that can be iterated, a jurisdiction that is a string), with the
  API key set and the newsletter file writable, and let the \<open>i\<close>-th section it requests
  be the one whose call to the chat endpoint fails with \<open>e\<close>. Then the run still returns
  a mapping; the value of that section is the error text with the cause; every requested
  section is a key of the mapping, the three ungated ones among them; every other section
  has the value that its own call gives; and one chat call is issued for each section.
\<close>

theorem C7_failed_section_does_not_abort_the_others:
  assumes "fs_read_json w analysis_file = Inr (JObj data)"
      and "dict_get_default data ''meeting_info'' (JObj []) = JObj meeting_info"
      and "dict_get_default data ''analysis'' (JObj []) = JObj analysis"
      and "getenv w ''OPENAI_API_KEY'' = Some api_key" and "api_key \<noteq> []"
      and "highlight_items lib (dict_get_default analysis ''newsletter_highlights'' (JArr []))
             = Inr items"
      and "dict_get_default meeting_info ''jurisdiction'' (JStr ''triangle'') = JStr j"
      and "fs_open_w w (newsletter_file_name (str_lower lib j) (now_file_stamp w)) = None"
      and "i < length (planned_sections lib items analysis meeting_info)"
      and "planned_sections lib items analysis meeting_info ! i = (key, label, req)"
      and "chat w (length tr + i) req = Inl e"
  shows "\<exists>secs. fst (generate_newsletter_content lib w analysis_file tr) = Inr (Some secs)
           \<and> map_of secs key = Some (Some (''Error generating '' @ label @ '' content: '' @ str_exn e))
           \<and> map fst secs = map fst (planned_sections lib items analysis meeting_info)
           \<and> {''market_intelligence'', ''regulatory_watch'', ''executive_summary''}
                \<subseteq> set (map fst secs)
           \<and> (\<forall>i' < length (planned_sections lib items analysis meeting_info). i' \<noteq> i \<longrightarrow>
                 (case planned_sections lib items analysis meeting_info ! i' of
                    (key', label', req') \<Rightarrow>
                      map_of secs key' = Some (section_value label' (chat w (length tr + i') req'))))
           \<and> chat_calls (snd (generate_newsletter_content lib w analysis_file tr)) =
               chat_calls tr @ map (\<lambda>p. snd (snd p)) (planned_sections lib items analysis meeting_info)"
proof -
  define planned where "planned = planned_sections lib items analysis meeting_info"
  define secs where "secs = generated_sections w (length tr) planned"
  have distinct: "distinct (map fst planned)"
    unfolding planned_def by (rule planned_sections_distinct)
  have run: "generate_newsletter_content lib w analysis_file tr =
               (Inr (Some secs),
                tr @ map (\<lambda>p. ChatCall (snd (snd p))) planned
                   @ [FileWrite (newsletter_file_name (str_lower lib j) (now_file_stamp w))
                        (newsletter_text lib w secs meeting_info)])"
    unfolding secs_def planned_def by (rule generate_newsletter_content_run [OF assms(1-8)])
  have failed: "map_of secs key = Some (section_value label (chat w (length tr + i) req))"
    unfolding secs_def
    using distinct assms(9,10) unfolding planned_def [symmetric]
    by (rule generated_sections_lookup)
  have placeholder:
    "map_of secs key = Some (Some (''Error generating '' @ label @ '' content: '' @ str_exn e))"
    unfolding failed assms(11) by (simp add: section_value_def error_text_def)
  have keys: "map fst secs = map fst planned"
    unfolding secs_def by (rule generated_sections_keys)
  have ungated: "{''market_intelligence'', ''regulatory_watch'', ''executive_summary''}
                   \<subseteq> set (map fst secs)"
    unfolding keys planned_def planned_sections_keys by simp
  have others: "\<forall>i' < length planned. i' \<noteq> i \<longrightarrow>
                 (case planned ! i' of
                    (key', label', req') \<Rightarrow>
                      map_of secs key' = Some (section_value label' (chat w (length tr + i') req')))"
  proof (intro allI impI)
    fix i' assume i': "i' < length planned"
    obtain key' label' req' where p: "planned ! i' = (key', label', req')"
      by (cases "planned ! i'")
    have "map_of secs key' = Some (section_value label' (chat w (length tr + i') req'))"
      unfolding secs_def using distinct i' p by (rule generated_sections_lookup)
    then show "case planned ! i' of
                 (key', label', req') \<Rightarrow>
                   map_of secs key' = Some (section_value label' (chat w (length tr + i') req'))"
      unfolding p by simp
  qed
  have calls: "chat_calls (snd (generate_newsletter_content lib w analysis_file tr)) =
                 chat_calls tr @ map (\<lambda>p. snd (snd p)) planned"
    unfolding run by (simp add: chat_calls_def comp_def)
  show ?thesis
    using run placeholder keys ungated others calls
    unfolding planned_def by (intro exI [of _ secs]) simp
qed

lemma second_call_fails_facts:
  "fs_read_json second_call_fails = fs_read_json sample_world"
  "getenv second_call_fails = getenv sample_world"
  "fs_open_w second_call_fails = fs_open_w sample_world"
  "now_file_stamp second_call_fails = now_file_stamp sample_world"
  by (simp_all add: second_call_fails_def)

theorem C7_witness:
  "\<exists>secs. fst (generate_newsletter_content sample_lib second_call_fails ''analysis.json'' [])
             = Inr (Some secs)
         \<and> map_of secs ''market_intelligence'' =
             Some (Some ''Error generating market intelligence content: Rate limit reached'')
         \<and> map fst secs =
             [''project_pipeline'', ''market_intelligence'', ''regulatory_watch'',
              ''executive_summary'']
         \<and> map_of secs ''project_pipeline'' = Some (Some ''Section text.'')
         \<and> map_of secs ''regulatory_watch'' = Some (Some ''Section text.'')
         \<and> map_of secs ''executive_summary'' = Some (Some ''Section text.'')"
proof -
  let ?items = "[bullet @ '' '' @ ''Oak Street Apartments approved 9-0'']"
  let ?planned = "planned_sections sample_lib ?items sample_analysis sample_info"
  have key: "''sk-sample'' \<noteq> ([]::string)"
    by simp
  have hl: "highlight_items sample_lib
              (dict_get_default sample_analysis ''newsletter_highlights'' (JArr [])) = Inr ?items"
    unfolding sample_run_facts(7) by simp
  have planned: "?planned =
     [(''project_pipeline'', ''project pipeline'',
       project_pipeline_request sample_lib sample_analysis sample_info),
      (''market_intelligence'', ''market intelligence'',
       market_intelligence_request sample_lib sample_analysis sample_info),
      (''regulatory_watch'', ''regulatory watch'',
       regulatory_watch_request sample_lib sample_analysis sample_info),
      (''executive_summary'', ''executive summary'',
       executive_summary_request sample_lib ?items sample_analysis sample_info)]"
    by (simp add: planned_sections_def dict_get_def sample_analysis_def)
  have i: "1 < length ?planned"
    unfolding planned by simp
  have nth: "?planned ! 1 =
     (''market_intelligence'', ''market intelligence'',
      market_intelligence_request sample_lib sample_analysis sample_info)"
    unfolding planned by simp
  have fails: "chat second_call_fails (length ([]::trace) + 1)
                 (market_intelligence_request sample_lib sample_analysis sample_info) =
               Inl (Exn OtherException ''Rate limit reached'')"
    by (simp add: second_call_fails_def)
  have answers: "\<And>n q. n \<noteq> 1 \<Longrightarrow>
      section_value label (chat second_call_fails n q) = Some ''Section text.''" for label
    by (simp add: second_call_fails_def section_value_def first_content_def sample_completion_def)
  obtain secs where secs:
    "fst (generate_newsletter_content sample_lib second_call_fails ''analysis.json'' [])
       = Inr (Some secs)"
    "map_of secs ''market_intelligence'' =
       Some (Some (''Error generating '' @ ''market intelligence'' @ '' content: ''
                   @ str_exn (Exn OtherException ''Rate limit reached'')))"
    "map fst secs = map fst ?planned"
    "\<forall>i' < length ?planned. i' \<noteq> 1 \<longrightarrow>
       (case ?planned ! i' of
          (key', label', req') \<Rightarrow>
            map_of secs key' =
              Some (section_value label' (chat second_call_fails (length ([]::trace) + i') req')))"
    using C7_failed_section_does_not_abort_the_others
            [where w = second_call_fails and lib = sample_lib and tr = "[]" and i = 1,
             unfolded second_call_fails_facts,
             OF sample_run_facts(1-4) key hl sample_run_facts(8,9) i nth
                fails [unfolded second_call_fails_facts]]
    by blast
  have "map_of secs ''project_pipeline'' = Some (Some ''Section text.'')"
    using secs(4) [rule_format, of 0] unfolding planned by (simp add: answers)
  moreover have "map_of secs ''regulatory_watch'' = Some (Some ''Section text.'')"
    using secs(4) [rule_format, of 2] unfolding planned by (simp add: answers)
  moreover have "map_of secs ''executive_summary'' = Some (Some ''Section text.'')"
    using secs(4) [rule_format, of 3] unfolding planned by (simp add: answers)
  moreover have "map fst secs =
      [''project_pipeline'', ''market_intelligence'', ''regulatory_watch'', ''executive_summary'']"
    unfolding secs(3) planned by simp
  ultimately show ?thesis
    using secs(1,2) by (intro exI [of _ secs]) simp
qed

text \<open>
  C6, as amended. The file that \<open>save_newsletter_content\<close> writes is the header, then, in
  the fixed order executive summary, project pipeline, market intelligence, regulatory
  watch, people and politics, one block for each section that is in the mapping with a
  non-empty text (the \<open>##\<close> heading, the text and a horizontal rule), and last the line with
  the generation time. A section that is not in the mapping, or is there with a null or
  empty text, contributes nothing.
\<close>

theorem C6_newsletter_file_layout:
  "newsletter_text lib w sections meeting_info =
     newsletter_header lib meeting_info
     @ section_block sections ''executive_summary'' ''## Executive Summary''
     @ section_block sections ''project_pipeline'' ''## Project Pipeline''
     @ section_block sections ''market_intelligence'' ''## Market Intelligence''
     @ section_block sections ''regulatory_watch'' ''## Regulatory Watch''
     @ section_block sections ''people_politics'' ''## People & Politics''
     @ ''*Generated by PermitRDU AI on '' @ now_footer_stamp w @ ''*\<newline>''
   \<and> section_block sections key title =
       (case map_of sections key of
          None \<Rightarrow> []
        | Some None \<Rightarrow> []
        | Some (Some s) \<Rightarrow>
            if s = [] then []
            else title @ ''\<newline>\<newline>'' @ s @ ''\<newline>\<newline>'' @ ''---\<newline>\<newline>'')
   \<and> (fst (save_newsletter_content lib w sections meeting_info tr) = Inr () \<longrightarrow>
        (\<exists>name. snd (save_newsletter_content lib w sections meeting_info tr) =
                  tr @ [FileWrite name (newsletter_text lib w sections meeting_info)]))"
proof -
  have block: "section_block sections key title =
       (case map_of sections key of
          None \<Rightarrow> []
        | Some None \<Rightarrow> []
        | Some (Some s) \<Rightarrow>
            if s = [] then []
            else title @ ''\<newline>\<newline>'' @ s @ ''\<newline>\<newline>'' @ ''---\<newline>\<newline>'')"
    by (simp add: section_block_def section_text_def split: option.splits)
  show ?thesis
    using block save_newsletter_content_trace [of lib w sections meeting_info tr]
    by (simp add: newsletter_text_blocks newsletter_footer_def)
qed

theorem C6_witness:
  "save_newsletter_content sample_lib sample_world sample_sections sample_info [] =
     (Inr (),
      [FileWrite ''newsletter_raleigh_20250812_150000.md''
         (newsletter_text sample_lib sample_world sample_sections sample_info)])
   \<and> newsletter_text sample_lib sample_world sample_sections sample_info =
       ''# Triangle Development Digest\<newline>\<newline>## Raleigh Planning Commission - 2025-08-12\<newline>\<newline>## Executive Summary\<newline>\<newline>One project approved.\<newline>\<newline>---\<newline>\<newline>## Market Intelligence\<newline>\<newline>Demand is steady.\<newline>\<newline>---\<newline>\<newline>*Generated by PermitRDU AI on August 12, 2025 at 03:00 PM*\<newline>''"
proof -
  have save: "save_newsletter_content sample_lib sample_world sample_sections sample_info [] =
     (Inr (),
      [FileWrite ''newsletter_raleigh_20250812_150000.md''
         (newsletter_text sample_lib sample_world sample_sections sample_info)])"
    using save_newsletter_content_writes [OF sample_run_facts(8,9), of sample_sections "[]"]
    by (simp add: newsletter_file_name_def sample_lib_def sample_world_def)
  have blocks:
    "section_block sample_sections ''executive_summary'' ''## Executive Summary'' =
       ''## Executive Summary\<newline>\<newline>One project approved.\<newline>\<newline>---\<newline>\<newline>''"
    "section_block sample_sections ''project_pipeline'' ''## Project Pipeline'' = []"
    "section_block sample_sections ''market_intelligence'' ''## Market Intelligence'' =
       ''## Market Intelligence\<newline>\<newline>Demand is steady.\<newline>\<newline>---\<newline>\<newline>''"
    "section_block sample_sections ''regulatory_watch'' ''## Regulatory Watch'' = []"
    "section_block sample_sections ''people_politics'' ''## People & Politics'' = []"
    by (simp_all add: section_block_def section_text_def sample_sections_def)
  have header: "newsletter_header sample_lib sample_info =
     ''# Triangle Development Digest\<newline>\<newline>## Raleigh Planning Commission - 2025-08-12\<newline>\<newline>''"
    by (simp add: newsletter_header_def sample_info_def dict_get_def)
  have stamp: "now_footer_stamp sample_world = ''August 12, 2025 at 03:00 PM''"
    by (simp add: sample_world_def)
  have "newsletter_text sample_lib sample_world sample_sections sample_info =
       ''# Triangle Development Digest\<newline>\<newline>## Raleigh Planning Commission - 2025-08-12\<newline>\<newline>## Executive Summary\<newline>\<newline>One project approved.\<newline>\<newline>---\<newline>\<newline>## Market Intelligence\<newline>\<newline>Demand is steady.\<newline>\<newline>---\<newline>\<newline>*Generated by PermitRDU AI on August 12, 2025 at 03:00 PM*\<newline>''"
    using C6_newsletter_file_layout
            [of sample_lib sample_world sample_sections sample_info _ _ "[]"]
    unfolding blocks header stamp by simp
  with save show ?thesis
    by simp
qed

text \<open>
  C6 as stated fails for a section that is in the mapping with an empty text (the model
  answered with an empty content): the key is present, and the file holds the header and
  the generation line only, with no \<open>## Executive Summary\<close> heading.
\<close>

theorem C6_present_but_empty_section_is_skipped:
  "map_of [(''executive_summary'', Some [])] ''executive_summary'' = Some (Some [])
   \<and> newsletter_text sample_lib sample_world [(''executive_summary'', Some [])] sample_info =
       ''# Triangle Development Digest\<newline>\<newline>## Raleigh Planning Commission - 2025-08-12\<newline>\<newline>*Generated by PermitRDU AI on August 12, 2025 at 03:00 PM*\<newline>''"
  by (simp add: newsletter_text_def section_order_def section_text_def newsletter_header_def
        newsletter_footer_def sample_info_def sample_world_def dict_get_def)

end
